theory Spec2Isabelle
  imports Complex_Main
begin

section \<open>Single-precision arithmetic\<close>

text \<open>
  The adapter computes with C++ \<^verbatim>\<open>float\<close> (IEEE-754 binary32) and, in one place, with
  \<^verbatim>\<open>double\<close>. A finite floating-point value is modelled by the rational number it
  denotes, and every arithmetic operation of the source is the exact operation followed
  by rounding to nearest, ties to even, at the precision of its C++ type. Infinities,
  NaN and the sign of zero are not modelled; none of the expressions below can overflow
  on finite operands. The engine's scalar type \<^verbatim>\<open>Ogre::Real\<close> is \<^verbatim>\<open>float\<close>, as in the
  engine's default build.
\<close>

type_synonym float = rat

fun bitlen_nat :: "nat \<Rightarrow> nat" where
  "bitlen_nat n = (if n = 0 then 0 else Suc (bitlen_nat (n div 2)))"

declare bitlen_nat.simps [simp del]

definition ilog2 :: "rat \<Rightarrow> int" where
  \<comment> \<open>the binary exponent of a non-zero value: the floor of the base-2 logarithm of \<open>\<bar>x\<bar>\<close>\<close>
  "ilog2 x = (let a = \<bar>x\<bar> in
     if 1 \<le> a then int (bitlen_nat (nat \<lfloor>a\<rfloor>)) - 1
     else - int (bitlen_nat (nat \<lceil>1 / a\<rceil> - 1)))"

definition round_even :: "rat \<Rightarrow> int" where
  "round_even x = (let f = \<lfloor>x\<rfloor>; d = x - of_int f in
     if d < 1/2 then f else if 1/2 < d then f + 1 else if even f then f else f + 1)"

definition round_to :: "nat \<Rightarrow> int \<Rightarrow> rat \<Rightarrow> rat" where
  \<comment> \<open>rounding to \<open>p\<close> significant bits, with gradual underflow below exponent \<open>emin\<close>\<close>
  "round_to p emin x = (if x = 0 then 0 else
     let q = 2 powi (max (ilog2 x) emin - (int p - 1)) in of_int (round_even (x / q)) * q)"

definition f32 :: "rat \<Rightarrow> float" where
  "f32 = round_to 24 (-126)"

definition f64 :: "rat \<Rightarrow> rat" where
  "f64 = round_to 53 (-1022)"

definition is_f32 :: "rat \<Rightarrow> bool" where
  \<comment> \<open>the rationals that are (finite) single-precision values\<close>
  "is_f32 x = (f32 x = x)"

definition fadd :: "float \<Rightarrow> float \<Rightarrow> float" where
  "fadd a b = f32 (a + b)"

definition fsub :: "float \<Rightarrow> float \<Rightarrow> float" where
  "fsub a b = f32 (a - b)"

definition fmul :: "float \<Rightarrow> float \<Rightarrow> float" where
  "fmul a b = f32 (a * b)"

definition fdiv :: "float \<Rightarrow> float \<Rightarrow> float" where
  "fdiv a b = f32 (a / b)"

definition float_of_int :: "int \<Rightarrow> float" where
  "float_of_int i = f32 (of_int i)"

definition dmul :: "rat \<Rightarrow> rat \<Rightarrow> rat" where
  \<comment> \<open>multiplication of two \<^verbatim>\<open>double\<close> values\<close>
  "dmul a b = f64 (a * b)"

section \<open>The vendor SDK, as the adapter sees it\<close>

text \<open>
  The objects of the HMD vendor SDK are opaque to the adapter. Each is modelled by what
  the adapter sets on it and reads from it.
\<close>

datatype SensorDevice = SensorDevice nat

datatype Quatf = Quatf (Quatf_x: float) (Quatf_y: float) (Quatf_z: float) (Quatf_w: float)

datatype Vector4 = Vector4 float float float float

record HMDInfo =
  ChromaAbCorrection :: Vector4

record HMDDevice =
  GetDeviceInfo :: HMDInfo
  GetSensor :: "SensorDevice option"

record DeviceManager =
  EnumerateDevices_HMDDevice :: "HMDDevice option"
  EnumerateDevices_SensorDevice :: "SensorDevice option"

record StereoConfig =
  GetHMDInfo :: HMDInfo
  GetDistortionK :: "nat \<Rightarrow> float"
  GetProjectionCenterOffset :: float
  GetIPD :: float
  GetEyeToScreenDistance :: float
  GetAspect :: float
  GetYFOVRadians :: float

record SensorFusion =
  attachedSensor :: "SensorDevice option"
  predictionEnabled :: bool
  GetPredictedOrientation :: Quatf
  resetCalls :: nat

definition AttachToSensor :: "SensorDevice \<Rightarrow> SensorFusion \<Rightarrow> SensorFusion" where
  "AttachToSensor s sf = sf\<lparr>attachedSensor := Some s\<rparr>"

definition SetPredictionEnabled :: "bool \<Rightarrow> SensorFusion \<Rightarrow> SensorFusion" where
  "SetPredictionEnabled b sf = sf\<lparr>predictionEnabled := b\<rparr>"

definition Reset :: "SensorFusion \<Rightarrow> SensorFusion" where
  \<comment> \<open>the model counts the calls; what a reset does to the filter is the SDK's business\<close>
  "Reset sf = sf\<lparr>resetCalls := Suc (resetCalls sf)\<rparr>"

text \<open>
  What the SDK answers during construction: the results of
  \<^verbatim>\<open>DeviceManager::Create()\<close>, of the two allocations, and the effect of
  \<^verbatim>\<open>StereoConfig::SetHMDInfo\<close>. A null pointer is \<open>None\<close>.
\<close>

record OVR =
  DeviceManager_Create :: "DeviceManager option"
  new_StereoConfig :: "StereoConfig option"
  SetHMDInfo :: "HMDInfo \<Rightarrow> StereoConfig \<Rightarrow> StereoConfig"
  new_SensorFusion :: "SensorFusion option"

section \<open>The rendering engine and the inherited camera\<close>

datatype Vector3 = Vector3 (vec_x: float) (vec_y: float) (vec_z: float)

datatype Quaternion =
  Quaternion (quat_w: float) (quat_x: float) (quat_y: float) (quat_z: float)

datatype Angle = Degree rat | Radian rat

type_synonym Matrix4 = "float list list"

datatype camera_call =
  pitch Angle | setFixedYawAxis bool Vector3 | setDirection float float float

record OgreCamera =
  cameraName :: string
  orientationCalls :: "camera_call list"
  autoAspectRatio :: bool
  nearClipDistance :: float
  farClipDistance :: float
  cameraPosition :: Vector3
  aspectRatio :: float
  FOVy :: Angle
  customProjectionMatrix :: "Matrix4 option"

record SceneNode =
  attachedObjects :: "string list"

datatype eye = LeftEye | RightEye

record CompositorInstance =
  compositorName :: string
  onViewport :: eye
  compositorEnabled :: bool

text \<open>
  The state the adapter inherits from \<^verbatim>\<open>gazebo::rendering::Camera\<close>. The fields are the
  ones this file touches; \<open>inherited\<close> stands for the rest of the base object. The world
  pose is what \<^verbatim>\<open>GetWorldPose()\<close> reports.
\<close>

record 'b Camera =
  name :: string
  sceneCameras :: "string list"
  camera :: "OgreCamera option"
  sceneNode :: "SceneNode option"
  viewport :: "unit option"
  worldPosition :: Vector3
  worldRotation :: Quaternion
  inherited :: 'b

text \<open>
  The methods inherited from \<^verbatim>\<open>Camera\<close> are defined elsewhere in the rendering
  library. They are parameters of the model: each is some function on the base state.
\<close>

record 'b Camera_methods =
  Camera_Camera :: "string \<Rightarrow> string list \<Rightarrow> 'b Camera"
  SetRenderRate :: "rat \<Rightarrow> 'b Camera \<Rightarrow> 'b Camera"
  Camera_Init :: "'b Camera \<Rightarrow> 'b Camera"
  SetHFOV :: "Angle \<Rightarrow> 'b Camera \<Rightarrow> 'b Camera"
  SetClipDist :: "float \<Rightarrow> float \<Rightarrow> 'b Camera \<Rightarrow> 'b Camera"
  Camera_Update :: "'b Camera \<Rightarrow> 'b Camera"
  SetWorldRotation :: "Quaternion \<Rightarrow> 'b Camera \<Rightarrow> 'b Camera"
  Camera_SetRenderTarget :: "'b Camera \<Rightarrow> 'b Camera"

text \<open>
  What the rendering engine supplies: the camera a scene manager hands out before the
  adapter configures it, the projection matrix the engine derives from a camera's
  frustum settings, and the matrix product.
\<close>

record Ogre =
  freshCamera :: OgreCamera
  getProjectionMatrix :: "OgreCamera \<Rightarrow> Matrix4"
  Matrix4_mul :: "Matrix4 \<Rightarrow> Matrix4 \<Rightarrow> Matrix4"

datatype RenderPathType = NONE | VERTEX | FORWARD | DEFERRED

text \<open>
  How a call can fail: an exception thrown by the adapter, a null pointer the adapter
  dereferences, an exception of the rendering engine.
\<close>

datatype error = GzException string | NullPointer string | OgreException string

definition createCamera ::
  "Ogre \<Rightarrow> string \<Rightarrow> string list \<Rightarrow> error + OgreCamera \<times> string list" where
  \<comment> \<open>a scene manager refuses a second camera of the same name\<close>
  "createCamera G nm cams =
     (if nm \<in> set cams then Inl (OgreException ''A camera with this name already exists'')
      else Inr ((freshCamera G)\<lparr>cameraName := nm\<rparr>, cams @ [nm]))"

definition UNIT_Z :: Vector3 where
  "UNIT_Z = Vector3 0 0 1"

definition IDENTITY :: Matrix4 where
  "IDENTITY = [[1, 0, 0, 0], [0, 1, 0, 0], [0, 0, 1, 0], [0, 0, 0, 1]]"

definition setTrans :: "Vector3 \<Rightarrow> Matrix4 \<Rightarrow> Matrix4" where
  "setTrans v m = m[0 := (m ! 0)[3 := vec_x v],
                    1 := (m ! 1)[3 := vec_y v],
                    2 := (m ! 2)[3 := vec_z v]]"

datatype gpu_constant = Constant4 Vector4 | Constant1 float

type_synonym Material = "string \<rightharpoonup> gpu_constant"

text \<open>
  The engine's resource managers: the fragment-program constants of each material, and
  for each compositor the material its output pass draws with.
\<close>

record Resources =
  materials :: "string \<rightharpoonup> Material"
  compositorMaterial :: "string \<rightharpoonup> string"

definition setNamedConstant ::
  "string \<Rightarrow> string \<Rightarrow> gpu_constant \<Rightarrow> Resources \<Rightarrow> Resources" where
  "setNamedConstant mat param v res =
     res\<lparr>materials := (materials res)
            (mat \<mapsto> (case materials res mat of None \<Rightarrow> Map.empty | Some ps \<Rightarrow> ps)
                       (param \<mapsto> v))\<rparr>"

definition addCompositor :: "Resources \<Rightarrow> eye \<Rightarrow> string \<Rightarrow> CompositorInstance option" where
  \<comment> \<open>null when no compositor of that name is defined\<close>
  "addCompositor res vp nm =
     (if nm \<in> dom (compositorMaterial res)
      then Some \<lparr>compositorName = nm, onViewport = vp, compositorEnabled = False\<rparr>
      else None)"

section \<open>The adapter\<close>

text \<open>
  Of a world-control message the adapter reads the optional \<^verbatim>\<open>reset\<close> field and, in
  it, the optional boolean \<^verbatim>\<open>all\<close>. An optional field that is not set is \<open>None\<close>.
\<close>

record WorldReset =
  reset_all :: "bool option"

record WorldControl =
  control_reset :: "WorldReset option"

definition has_reset :: "WorldControl \<Rightarrow> bool" where
  "has_reset m = (control_reset m \<noteq> None)"

definition reset :: "WorldControl \<Rightarrow> WorldReset" where
  \<comment> \<open>an unset message field reads as the default instance\<close>
  "reset m = (case control_reset m of None \<Rightarrow> \<lparr>reset_all = None\<rparr> | Some r \<Rightarrow> r)"

definition has_all :: "WorldReset \<Rightarrow> bool" where
  "has_all r = (reset_all r \<noteq> None)"

definition all_field :: "WorldReset \<Rightarrow> bool" where
  \<comment> \<open>an unset boolean field reads as false\<close>
  "all_field r = (case reset_all r of None \<Rightarrow> False | Some b \<Rightarrow> b)"

record 'b OculusCamera =
  base :: "'b Camera"
  deviceManager :: "DeviceManager option"
  stereoConfig :: "StereoConfig option"
  centerOffset :: float
  hmd :: "HMDDevice option"
  sensor :: "SensorDevice option"
  sensorFusion :: "SensorFusion option"
  node :: bool
  controlSub :: "string option"
  rightCamera :: "OgreCamera option"
  rightViewport :: "unit option"
  compositors :: "CompositorInstance option list"

definition g_defaultNearClip :: float where
  "g_defaultNearClip = f32 (1 / 10)"

definition g_defaultFarClip :: float where
  "g_defaultFarClip = f32 5000"

definition g_defaultIPD :: float where
  "g_defaultIPD = f32 (64 / 1000)"

definition g_defautlProjectionCenterOffset :: float where
  "g_defautlProjectionCenterOffset = f32 (14529906 / 100000000)"

definition g_defaultDistortion :: "nat \<Rightarrow> float" where
  "g_defaultDistortion i =
     (if i = 0 then f32 1 else if i = 1 then f32 (22 / 100)
      else if i = 2 then f32 (24 / 100) else 0)"

subsection \<open>Construction\<close>

definition OculusCamera_OculusCamera ::
  "OVR \<Rightarrow> 'b Camera_methods \<Rightarrow> string \<Rightarrow> string list \<Rightarrow> error + 'b OculusCamera" where
  "OculusCamera_OculusCamera ovr B nm scene =
    (let this = \<lparr>base = SetRenderRate B 30 (Camera_Camera B nm scene),
                 deviceManager = None, stereoConfig = None, centerOffset = 0,
                 hmd = None, sensor = None, sensorFusion = None,
                 node = False, controlSub = None,
                 rightCamera = None, rightViewport = None,
                 compositors = [None, None]\<rparr>
     in case DeviceManager_Create ovr of
          None \<Rightarrow> Inl (GzException (''Oculus: Failed to create Device Manager'' @ [CHR 0x0A]))
        | Some dm \<Rightarrow>
     (case new_StereoConfig ovr of
          None \<Rightarrow> Inl (GzException (''Oculus: Failed to create StereoConfig'' @ [CHR 0x0A]))
        | Some sc \<Rightarrow>
     (let this = this\<lparr>deviceManager := Some dm, stereoConfig := Some sc,
                       centerOffset := GetProjectionCenterOffset sc,
                       hmd := EnumerateDevices_HMDDevice dm\<rparr>;
          this = (case hmd this of
                    Some h \<Rightarrow>
                      this\<lparr>stereoConfig := Some (SetHMDInfo ovr (GetDeviceInfo h) sc),
                           sensor := GetSensor h\<rparr>
                  | None \<Rightarrow> this\<lparr>sensor := EnumerateDevices_SensorDevice dm\<rparr>)
      in case sensor this of
           None \<Rightarrow> Inl (GzException (''Oculus: Failed to create sensor'' @ [CHR 0x0A]))
         | Some s \<Rightarrow>
      (case new_SensorFusion ovr of
           None \<Rightarrow> Inr this
         | Some sf \<Rightarrow>
             Inr (this\<lparr>sensorFusion := Some (SetPredictionEnabled True (AttachToSensor s sf)),
                      node := True,
                      controlSub := Some ''~/world_control''\<rparr>)))))"

subsection \<open>World-control messages\<close>

definition ResetSensor :: "'b OculusCamera \<Rightarrow> error + 'b OculusCamera" where
  "ResetSensor this =
     (case sensorFusion this of
        None \<Rightarrow> Inl (NullPointer ''sensorFusion'')
      | Some sf \<Rightarrow> Inr (this\<lparr>sensorFusion := Some (Reset sf)\<rparr>))"

definition OnControl :: "WorldControl \<Rightarrow> 'b OculusCamera \<Rightarrow> error + 'b OculusCamera" where
  "OnControl data this =
     (if has_reset data \<and> has_all (reset data) \<and> all_field (reset data)
      then ResetSensor this
      else Inr this)"

subsection \<open>The per-frame update\<close>

definition Update :: "'b Camera_methods \<Rightarrow> 'b OculusCamera \<Rightarrow> error + 'b OculusCamera" where
  "Update B this =
     (let this = this\<lparr>base := Camera_Update B (base this)\<rparr>
      in case sensorFusion this of
           None \<Rightarrow> Inl (NullPointer ''sensorFusion'')
         | Some sf \<Rightarrow>
             (let q = GetPredictedOrientation sf;
                  quat = Quaternion (Quatf_w q) (- Quatf_z q) (- Quatf_x q) (Quatf_y q)
              in Inr (this\<lparr>base := SetWorldRotation B quat (base this)\<rparr>)))"

subsection \<open>Initialisation\<close>

definition GZ_DTOR :: "rat \<Rightarrow> Angle" where
  \<comment> \<open>degrees to radians; the angle is kept symbolic\<close>
  "GZ_DTOR d = Degree d"

definition Init ::
  "Ogre \<Rightarrow> 'b Camera_methods \<Rightarrow> RenderPathType \<Rightarrow> 'b OculusCamera \<Rightarrow> error + 'b OculusCamera" where
  "Init G B pathType this =
    (let this = this\<lparr>base := Camera_Init B (base this)\<rparr>;
         this = this\<lparr>base := SetHFOV B (GZ_DTOR 60) (base this)\<rparr>
     in case createCamera G ''UserRight'' (sceneCameras (base this)) of
          Inl e \<Rightarrow> Inl e
        | Inr (rc, cams) \<Rightarrow>
     (let this = this\<lparr>base := (base this)\<lparr>sceneCameras := cams\<rparr>\<rparr>;
          rc = rc\<lparr>orientationCalls := orientationCalls rc @ [pitch (Degree 90)]\<rparr>;
          rc = rc\<lparr>orientationCalls := orientationCalls rc @ [setFixedYawAxis True UNIT_Z]\<rparr>;
          rc = rc\<lparr>orientationCalls := orientationCalls rc @ [setDirection 1 0 0]\<rparr>
      in case sceneNode (base this) of
           None \<Rightarrow> Inl (NullPointer ''sceneNode'')
         | Some sn \<Rightarrow>
      (let sn = sn\<lparr>attachedObjects := attachedObjects sn @ [cameraName rc]\<rparr>;
           this = this\<lparr>base := (base this)\<lparr>sceneNode := Some sn\<rparr>\<rparr>;
           rc = rc\<lparr>autoAspectRatio := False\<rparr>
       in case camera (base this) of
            None \<Rightarrow> Inl (NullPointer ''camera'')
          | Some lc \<Rightarrow>
       (let lc = lc\<lparr>autoAspectRatio := False\<rparr>;
            rc = rc\<lparr>nearClipDistance := g_defaultNearClip\<rparr>;
            rc = rc\<lparr>farClipDistance := g_defaultFarClip\<rparr>;
            lc = lc\<lparr>nearClipDistance := g_defaultNearClip\<rparr>;
            lc = lc\<lparr>farClipDistance := g_defaultFarClip\<rparr>;
            this = this\<lparr>base := (base this)\<lparr>camera := Some lc\<rparr>, rightCamera := Some rc\<rparr>
        in case pathType of
             VERTEX \<Rightarrow>
               Inr (this\<lparr>base := SetClipDist B g_defaultNearClip g_defaultFarClip (base this)\<rparr>)
           | DEFERRED \<Rightarrow>
               Inr (this\<lparr>base := SetClipDist B g_defaultNearClip g_defaultFarClip (base this)\<rparr>)
           | FORWARD \<Rightarrow>
               Inr (this\<lparr>base := SetClipDist B g_defaultNearClip g_defaultFarClip (base this)\<rparr>)
           | _ \<Rightarrow>
               Inr (this\<lparr>base := SetClipDist B g_defaultNearClip g_defaultFarClip (base this)\<rparr>)))))"

subsection \<open>Stereo set-up\<close>

definition matLeftName :: string where
  "matLeftName = ''Ogre/Compositor/Oculus''"

definition matRightName :: string where
  "matRightName = ''Ogre/Compositor/Oculus/Right''"

text \<open>
  The camera settings of one pass of the loop over the two eyes, for the eye index
  \<open>idx = i * 2 - 1\<close>. Both branches of the test on the stereo configuration are kept.
\<close>

definition setupEyeCamera :: "Ogre \<Rightarrow> StereoConfig option \<Rightarrow> int \<Rightarrow> OgreCamera \<Rightarrow> OgreCamera" where
  "setupEyeCamera G cfg idx cam =
    (case cfg of
       Some sc \<Rightarrow>
         (let cam = cam\<lparr>nearClipDistance := GetEyeToScreenDistance sc\<rparr>;
              cam = cam\<lparr>farClipDistance := g_defaultFarClip\<rparr>;
              cam = cam\<lparr>cameraPosition :=
                      Vector3 0
                        (f32 (dmul (fmul (fmul (float_of_int idx) (GetIPD sc)) (1 / 2)) (- 1)))
                        0\<rparr>;
              cam = cam\<lparr>aspectRatio := GetAspect sc\<rparr>;
              cam = cam\<lparr>FOVy := Radian (GetYFOVRadians sc)\<rparr>;
              proj = setTrans
                       (Vector3 (fmul (- GetProjectionCenterOffset sc) (float_of_int idx)) 0 0)
                       IDENTITY
          in cam\<lparr>customProjectionMatrix :=
                   Some (Matrix4_mul G proj (getProjectionMatrix G cam))\<rparr>)
     | None \<Rightarrow>
         (let cam = cam\<lparr>nearClipDistance := g_defaultNearClip\<rparr>;
              cam = cam\<lparr>farClipDistance := g_defaultFarClip\<rparr>
          in cam\<lparr>cameraPosition :=
                   Vector3 (fmul (fmul (float_of_int idx) g_defaultIPD) (1 / 2)) 0 0\<rparr>))"

definition Oculus_eye ::
  "Ogre \<Rightarrow> Resources \<Rightarrow> nat \<Rightarrow> 'b OculusCamera \<Rightarrow> error + 'b OculusCamera" where
  "Oculus_eye G res i this =
    (case (if i = 0 then camera (base this) else rightCamera this) of
       None \<Rightarrow> Inl (NullPointer ''cam'')
     | Some cam \<Rightarrow>
    (let idx = int i * 2 - 1;
         cam = setupEyeCamera G (stereoConfig this) idx cam;
         this = (if i = 0 then this\<lparr>base := (base this)\<lparr>camera := Some cam\<rparr>\<rparr>
                 else this\<lparr>rightCamera := Some cam\<rparr>)
     in if i = 0
        then (case addCompositor res LeftEye ''OculusLeft'' of
                None \<Rightarrow> Inl (NullPointer ''compositors'')
              | Some inst \<Rightarrow>
                  Inr (this\<lparr>compositors :=
                         (compositors this)[i := Some (inst\<lparr>compositorEnabled := True\<rparr>)]\<rparr>))
        else (case addCompositor res RightEye ''OculusRight'' of
                None \<Rightarrow> Inl (NullPointer ''compositors'')
              | Some inst \<Rightarrow>
                  Inr (this\<lparr>compositors :=
                         (compositors this)[i := Some (inst\<lparr>compositorEnabled := True\<rparr>)]\<rparr>))))"

function Oculus_loop ::
  "Ogre \<Rightarrow> Resources \<Rightarrow> nat \<Rightarrow> 'b OculusCamera \<Rightarrow> error + 'b OculusCamera" where
  "Oculus_loop G res i this =
     (if i < 2
      then (case Oculus_eye G res i this of
              Inl e \<Rightarrow> Inl e
            | Inr this' \<Rightarrow> Oculus_loop G res (i + 1) this')
      else Inr this)"
  by pat_completeness auto
termination
  by (relation "measure (\<lambda>(G, res, i, this). 2 - i)") auto

declare Oculus_loop.simps [simp del]

definition hmdwarp_of :: "StereoConfig option \<Rightarrow> Vector4" where
  "hmdwarp_of cfg =
     (case cfg of
        Some sc \<Rightarrow> Vector4 (GetDistortionK sc 0) (GetDistortionK sc 1)
                     (GetDistortionK sc 2) (GetDistortionK sc 3)
      | None \<Rightarrow> Vector4 (g_defaultDistortion 0) (g_defaultDistortion 1)
                  (g_defaultDistortion 2) (g_defaultDistortion 3))"

definition hmdchrom_of :: "StereoConfig option \<Rightarrow> Vector4" where
  "hmdchrom_of cfg =
     (case cfg of
        Some sc \<Rightarrow> ChromaAbCorrection (GetHMDInfo sc)
      | None \<Rightarrow> Vector4 (f32 (f64 (996 / 1000))) (f32 (f64 (- 4 / 1000)))
                  (f32 (f64 (1014 / 1000))) 0)"

definition Oculus ::
  "Ogre \<Rightarrow> Resources \<Rightarrow> 'b OculusCamera \<Rightarrow> error + Resources \<times> 'b OculusCamera" where
  "Oculus G res this =
    (case materials res matLeftName of
       None \<Rightarrow> Inl (NullPointer ''matLeft'')
     | Some matLeft \<Rightarrow>
    (let res = res\<lparr>materials := (materials res)(matRightName \<mapsto> matLeft)\<rparr>;
         hmdwarp = hmdwarp_of (stereoConfig this);
         res = setNamedConstant matLeftName ''HmdWarpParam'' (Constant4 hmdwarp) res;
         res = setNamedConstant matRightName ''HmdWarpParam'' (Constant4 hmdwarp) res;
         hmdchrom = hmdchrom_of (stereoConfig this);
         res = setNamedConstant matLeftName ''ChromAbParam'' (Constant4 hmdchrom) res;
         res = setNamedConstant matRightName ''ChromAbParam'' (Constant4 hmdchrom) res
     in case stereoConfig this of
          None \<Rightarrow> Inl (NullPointer ''stereoConfig'')
        | Some sc \<Rightarrow>
     (let res = setNamedConstant matLeftName ''LensCenter''
                  (Constant1 (fadd (1 / 2) (fdiv (GetProjectionCenterOffset sc) 2))) res;
          res = setNamedConstant matRightName ''LensCenter''
                  (Constant1 (fsub (1 / 2) (fdiv (GetProjectionCenterOffset sc) 2))) res
      in case compositorMaterial res ''OculusRight'' of
           None \<Rightarrow> Inl (NullPointer ''comp'')
         | Some _ \<Rightarrow>
      (let res = res\<lparr>compositorMaterial :=
                       (compositorMaterial res)(''OculusRight'' \<mapsto> matRightName)\<rparr>
       in case Oculus_loop G res 0 this of
            Inl e \<Rightarrow> Inl e
          | Inr this' \<Rightarrow> Inr (res, this')))))"

definition SetRenderTarget ::
  "Ogre \<Rightarrow> 'b Camera_methods \<Rightarrow> Resources \<Rightarrow> 'b OculusCamera \<Rightarrow>
     error + Resources \<times> 'b OculusCamera" where
  "SetRenderTarget G B res this =
    (let this = this\<lparr>base := Camera_SetRenderTarget B (base this)\<rparr>;
         this = this\<lparr>rightViewport := Some ()\<rparr>
     in case viewport (base this) of
          None \<Rightarrow> Inl (NullPointer ''viewport'')
        | Some _ \<Rightarrow> Oculus G res this)"

subsection \<open>The life of an adapter\<close>

text \<open>
  The states an adapter can be in: the one its constructor returns, and every state a
  completed call of one of its methods leads to from there.
\<close>

inductive constructed ::
  "OVR \<Rightarrow> 'b Camera_methods \<Rightarrow> Ogre \<Rightarrow> 'b OculusCamera \<Rightarrow> bool"
  for ovr :: OVR and B :: "'b Camera_methods" and G :: Ogre where
  by_constructor:
    "OculusCamera_OculusCamera ovr B nm scene = Inr this \<Longrightarrow> constructed ovr B G this"
| after_Init:
    "constructed ovr B G this \<Longrightarrow> Init G B pathType this = Inr this' \<Longrightarrow>
     constructed ovr B G this'"
| after_Update:
    "constructed ovr B G this \<Longrightarrow> Update B this = Inr this' \<Longrightarrow>
     constructed ovr B G this'"
| after_OnControl:
    "constructed ovr B G this \<Longrightarrow> OnControl data this = Inr this' \<Longrightarrow>
     constructed ovr B G this'"
| after_SetRenderTarget:
    "constructed ovr B G this \<Longrightarrow> SetRenderTarget G B res this = Inr (res', this') \<Longrightarrow>
     constructed ovr B G this'"

subsection \<open>Notions used to state the properties\<close>

definition distance :: "Vector3 \<Rightarrow> Vector3 \<Rightarrow> real" where
  \<comment> \<open>the Euclidean distance between two positions\<close>
  "distance a b =
     sqrt (of_rat ((vec_x a - vec_x b) ^ 2 + (vec_y a - vec_y b) ^ 2 + (vec_z a - vec_z b) ^ 2))"

definition xTranslation :: "float \<Rightarrow> Matrix4" where
  \<comment> \<open>the matrix of a translation by \<open>t\<close> along the x axis\<close>
  "xTranslation t = [[1, 0, 0, t], [0, 1, 0, 0], [0, 0, 1, 0], [0, 0, 0, 1]]"

text \<open>What a call leaves behind, read off its result; nothing when the call failed.\<close>

definition eyeCameras ::
  "error + Resources \<times> 'b OculusCamera \<Rightarrow> (OgreCamera \<times> OgreCamera) option" where
  "eyeCameras result =
     (case result of
        Inl e \<Rightarrow> None
      | Inr (res, this) \<Rightarrow>
          (case (camera (base this), rightCamera this) of
             (Some l, Some r) \<Rightarrow> Some (l, r)
           | _ \<Rightarrow> None))"

definition materialConstant ::
  "string \<Rightarrow> string \<Rightarrow> error + Resources \<times> 'b OculusCamera \<Rightarrow> gpu_constant option" where
  "materialConstant mat param result =
     (case result of
        Inl e \<Rightarrow> None
      | Inr (res, this) \<Rightarrow>
          (case materials res mat of None \<Rightarrow> None | Some ps \<Rightarrow> ps param))"

definition positionAfter :: "error + 'b OculusCamera \<Rightarrow> Vector3 option" where
  "positionAfter result =
     (case result of Inl e \<Rightarrow> None | Inr this \<Rightarrow> Some (worldPosition (base this)))"

definition rotationAfter :: "error + 'b OculusCamera \<Rightarrow> Quaternion option" where
  "rotationAfter result =
     (case result of Inl e \<Rightarrow> None | Inr this \<Rightarrow> Some (worldRotation (base this)))"

section \<open>Concrete instances\<close>

text \<open>
  A plain instance of the inherited methods, to run the model on concrete inputs:
  initialisation creates the left camera and the scene node, the setters store their
  argument, the rest does nothing.
\<close>

definition plain_Camera :: "unit Camera_methods" where
  "plain_Camera =
     \<lparr>Camera_Camera = (\<lambda>nm scene.
          \<lparr>name = nm, sceneCameras = scene, camera = None, sceneNode = None,
           viewport = None, worldPosition = Vector3 0 0 0,
           worldRotation = Quaternion 1 0 0 0, inherited = ()\<rparr>),
      SetRenderRate = (\<lambda>r c. c),
      Camera_Init = (\<lambda>c. c\<lparr>sceneCameras := sceneCameras c @ [name c],
                             camera := Some \<lparr>cameraName = name c, orientationCalls = [],
                               autoAspectRatio = True, nearClipDistance = 100,
                               farClipDistance = 100000, cameraPosition = Vector3 0 0 0,
                               aspectRatio = 4 / 3, FOVy = Degree 45,
                               customProjectionMatrix = None\<rparr>,
                             sceneNode := Some \<lparr>attachedObjects = [name c]\<rparr>\<rparr>),
      SetHFOV = (\<lambda>a c. c),
      SetClipDist = (\<lambda>n f c.
          c\<lparr>camera := map_option (\<lambda>k. k\<lparr>nearClipDistance := n, farClipDistance := f\<rparr>)
                          (camera c)\<rparr>),
      Camera_Update = (\<lambda>c. c),
      SetWorldRotation = (\<lambda>q c. c\<lparr>worldRotation := q\<rparr>),
      Camera_SetRenderTarget = (\<lambda>c. c\<lparr>viewport := Some ()\<rparr>)\<rparr>"

text \<open>A head-mounted display with its sensor, and the SDK that finds it.\<close>

definition dk1_info :: HMDInfo where
  "dk1_info = \<lparr>ChromaAbCorrection = Vector4 (16710107 / 16777216) (- 8589935 / 2147483648)
                                         (8506049 / 8388608) 0\<rparr>"

definition dk1_hmd :: HMDDevice where
  "dk1_hmd = \<lparr>GetDeviceInfo = dk1_info, GetSensor = Some (SensorDevice 1)\<rparr>"

definition dk1_manager :: DeviceManager where
  "dk1_manager = \<lparr>EnumerateDevices_HMDDevice = Some dk1_hmd,
                  EnumerateDevices_SensorDevice = Some (SensorDevice 1)\<rparr>"

definition dk1_config :: StereoConfig where
  "dk1_config =
     \<lparr>GetHMDInfo = dk1_info,
      GetDistortionK = (\<lambda>i. if i = 0 then 1 else if i = 1 then 7381975 / 33554432
                             else if i = 2 then 16106127 / 67108864 else 0),
      GetProjectionCenterOffset = 10198937 / 67108864,
      GetIPD = 8589935 / 134217728,
      GetEyeToScreenDistance = 5502927 / 134217728,
      GetAspect = 13421773 / 16777216,
      GetYFOVRadians = 2\<rparr>"

definition idle_fusion :: SensorFusion where
  "idle_fusion = \<lparr>attachedSensor = None, predictionEnabled = False,
                  GetPredictedOrientation = Quatf 0 0 0 1, resetCalls = 0\<rparr>"

definition dk1_sdk :: OVR where
  "dk1_sdk = \<lparr>DeviceManager_Create = Some dk1_manager,
              new_StereoConfig = Some dk1_config,
              SetHMDInfo = (\<lambda>info sc. sc\<lparr>GetHMDInfo := info\<rparr>),
              new_SensorFusion = Some idle_fusion\<rparr>"

definition dk1_fusion :: SensorFusion where
  "dk1_fusion = \<lparr>attachedSensor = Some (SensorDevice 1), predictionEnabled = True,
                 GetPredictedOrientation = Quatf 0 0 0 1, resetCalls = 0\<rparr>"

definition dk1_camera :: "unit OculusCamera" where
  "dk1_camera =
     \<lparr>base = \<lparr>name = ''user'', sceneCameras = [], camera = None, sceneNode = None,
              viewport = None, worldPosition = Vector3 0 0 0,
              worldRotation = Quaternion 1 0 0 0, inherited = ()\<rparr>,
      deviceManager = Some dk1_manager, stereoConfig = Some dk1_config,
      centerOffset = 10198937 / 67108864,
      hmd = Some dk1_hmd, sensor = Some (SensorDevice 1),
      sensorFusion = Some dk1_fusion,
      node = True, controlSub = Some ''~/world_control'',
      rightCamera = None, rightViewport = None, compositors = [None, None]\<rparr>"

text \<open>A plain rendering engine: some projection matrix, the exact matrix product.\<close>

definition mat_mul :: "Matrix4 \<Rightarrow> Matrix4 \<Rightarrow> Matrix4" where
  "mat_mul a b =
     map (\<lambda>r. map (\<lambda>j. sum_list (map2 (*) r (map (\<lambda>row. row ! j) b))) [0, 1, 2, 3]) a"

definition plain_Ogre :: Ogre where
  "plain_Ogre =
     \<lparr>freshCamera = \<lparr>cameraName = [], orientationCalls = [],
                      autoAspectRatio = False, nearClipDistance = 100,
                      farClipDistance = 100000, cameraPosition = Vector3 0 0 0,
                      aspectRatio = 4 / 3, FOVy = Degree 45,
                      customProjectionMatrix = None\<rparr>,
      getProjectionMatrix = (\<lambda>c. [[1, 0, 0, 0], [0, aspectRatio c, 0, 0],
                                    [0, 0, - 1, - 2 * nearClipDistance c], [0, 0, - 1, 0]]),
      Matrix4_mul = mat_mul\<rparr>"

text \<open>A display whose distortion and chromatic-aberration values are not the defaults.\<close>

definition other_config :: StereoConfig where
  "other_config =
     dk1_config\<lparr>GetHMDInfo := \<lparr>ChromaAbCorrection = Vector4 1 (- (1 / 512)) (3 / 2) (1 / 8)\<rparr>,
                GetDistortionK := (\<lambda>i. if i = 0 then 1 else if i = 1 then 1 / 4
                                       else if i = 2 then 1 / 8 else 1 / 16)\<rparr>"

definition dk1_resources :: Resources where
  "dk1_resources =
     \<lparr>materials = [matLeftName \<mapsto> Map.empty],
      compositorMaterial = [''OculusLeft'' \<mapsto> matLeftName, ''OculusRight'' \<mapsto> matLeftName]\<rparr>"

text \<open>The adapter of the display above once initialised, with its two eye cameras.\<close>

definition dk1_left :: OgreCamera where
  "dk1_left = \<lparr>cameraName = ''user'', orientationCalls = [],
                autoAspectRatio = False, nearClipDistance = g_defaultNearClip,
                farClipDistance = g_defaultFarClip, cameraPosition = Vector3 0 0 0,
                aspectRatio = 4 / 3, FOVy = Degree 45, customProjectionMatrix = None\<rparr>"

definition dk1_right :: OgreCamera where
  "dk1_right = \<lparr>cameraName = ''UserRight'',
                 orientationCalls = [pitch (Degree 90), setFixedYawAxis True UNIT_Z,
                                     setDirection 1 0 0],
                 autoAspectRatio = False, nearClipDistance = g_defaultNearClip,
                 farClipDistance = g_defaultFarClip, cameraPosition = Vector3 0 0 0,
                 aspectRatio = 4 / 3, FOVy = Degree 45, customProjectionMatrix = None\<rparr>"

definition dk1_initialised :: "unit OculusCamera" where
  "dk1_initialised =
     dk1_camera\<lparr>base := (base dk1_camera)
                   \<lparr>sceneCameras := [''user'', ''UserRight''],
                    camera := Some dk1_left,
                    sceneNode := Some \<lparr>attachedObjects = [''user'', ''UserRight'']\<rparr>\<rparr>,
                 rightCamera := Some dk1_right\<rparr>"

section \<open>Facts about the rounding functions\<close>

lemma round_even_minus: "round_even (- x) = - round_even x"
proof (cases "x \<in> \<int>")
  case True
  then obtain n where "x = of_int n" by (auto elim: Ints_cases)
  then show ?thesis by (simp add: round_even_def flip: of_int_minus)
next
  case False
  then have ne: "x \<noteq> of_int \<lfloor>x\<rfloor>" by (metis Ints_of_int)
  then have c: "\<lceil>x\<rceil> = \<lfloor>x\<rfloor> + 1" by (simp add: ceiling_altdef)
  have f: "\<lfloor>- x\<rfloor> = - \<lfloor>x\<rfloor> - 1" using c by (simp add: ceiling_def)
  have lt: "of_int \<lfloor>x\<rfloor> < x" using False by (metis Ints_of_int floor_correct order_less_le)
  show ?thesis
    unfolding round_even_def Let_def f
    by (auto simp: algebra_simps)
qed

lemma round_even_of_int: "round_even (of_int n) = n"
  by (simp add: round_even_def)

lemma ilog2_minus: "ilog2 (- x) = ilog2 x"
  by (simp add: ilog2_def)

lemma round_to_minus: "round_to p emin (- x) = - round_to p emin x"
  by (simp add: round_to_def ilog2_minus round_even_minus Let_def)

lemma f32_minus: "f32 (- x) = - f32 x"
  by (simp add: f32_def round_to_minus)

lemma f64_minus: "f64 (- x) = - f64 x"
  by (simp add: f64_def round_to_minus)

lemma round_to_exact:
  assumes "x = of_int n * 2 powi k" and "max (ilog2 x) emin - (int p - 1) \<le> k"
  shows "round_to p emin x = x"
proof (cases "x = 0")
  case True then show ?thesis by (simp add: round_to_def)
next
  case False
  define j where "j = max (ilog2 x) emin - (int p - 1)"
  have "x / 2 powi j = of_int n * 2 powi (k - j)"
    using assms(1) by (simp add: power_int_diff)
  also have "\<dots> = of_int (n * 2 ^ nat (k - j))"
    using assms(2) by (simp add: j_def power_int_def)
  finally have "round_even (x / 2 powi j) = n * 2 ^ nat (k - j)"
    by (simp only: round_even_of_int)
  then have "of_int (round_even (x / 2 powi j)) * 2 powi j = (of_int n * 2 powi (k - j)) * 2 powi j"
    using assms(2) by (simp add: j_def power_int_def)
  also have "\<dots> = x"
    using assms(1) by (simp add: power_int_diff)
  finally show ?thesis
    using False by (simp add: round_to_def Let_def j_def)
qed

lemma round_to_multiple:
  "x \<noteq> 0 \<Longrightarrow> round_to p emin x =
     of_int (round_even (x / 2 powi (max (ilog2 x) emin - (int p - 1)))) *
       2 powi (max (ilog2 x) emin - (int p - 1))"
  by (simp add: round_to_def Let_def)

lemma f32_imp_f64: assumes "is_f32 x" shows "f64 x = x"
proof (cases "x = 0")
  case True then show ?thesis by (simp add: f64_def round_to_def)
next
  case False
  have "x = of_int (round_even (x / 2 powi (max (ilog2 x) (-126) - (int 24 - 1)))) *
       2 powi (max (ilog2 x) (-126) - (int 24 - 1))"
    using assms False round_to_multiple [of x 24 "-126"] by (simp add: is_f32_def f32_def)
  then show ?thesis
    unfolding f64_def by (rule round_to_exact) (auto simp: max_def)
qed

lemma is_f32_minus: "is_f32 (- x) = is_f32 x"
  by (simp add: is_f32_def f32_minus)

lemma f32_one: "f32 1 = 1"
  by code_simp

lemma float_of_int_one: "float_of_int 1 = 1"
  by code_simp

lemma float_of_int_minus_one: "float_of_int (- 1) = - 1"
  by code_simp



lemma bitlen_nat_upper: "n < 2 ^ bitlen_nat n"
proof (induction n rule: bitlen_nat.induct)
  case (1 n)
  show ?case
  proof (cases "n = 0")
    case True then show ?thesis by (simp add: bitlen_nat.simps)
  next
    case False
    with 1 have "n div 2 < 2 ^ bitlen_nat (n div 2)" by simp
    then have "n < 2 * 2 ^ bitlen_nat (n div 2)" by linarith
    with False show ?thesis by (subst bitlen_nat.simps) simp
  qed
qed

lemma bitlen_nat_lower: "0 < n \<Longrightarrow> 2 ^ (bitlen_nat n - 1) \<le> n"
proof (induction n rule: bitlen_nat.induct)
  case (1 n)
  show ?case
  proof (cases "n div 2 = 0")
    case True
    with 1(2) have "n = 1" by (simp add: div_eq_0_iff) 
    then show ?thesis by (simp add: bitlen_nat.simps)
  next
    case False
    with 1 have ih: "2 ^ (bitlen_nat (n div 2) - 1) \<le> n div 2" by simp
    have pos: "0 < bitlen_nat (n div 2)" using False by (subst bitlen_nat.simps) simp
    have "bitlen_nat n = Suc (bitlen_nat (n div 2))" using 1(2) by (subst bitlen_nat.simps) simp
    then have "(2::nat) ^ (bitlen_nat n - 1) = 2 * 2 ^ (bitlen_nat (n div 2) - 1)"
      using pos by (cases "bitlen_nat (n div 2)") simp_all
    with ih show ?thesis by linarith
  qed
qed

lemma bitlen_nat_pos: "0 < n \<Longrightarrow> 0 < bitlen_nat n"
  by (subst bitlen_nat.simps) simp

lemma ilog2_bounds:
  assumes "x \<noteq> 0"
  shows "2 powi ilog2 x \<le> \<bar>x\<bar> \<and> \<bar>x\<bar> < 2 powi (ilog2 x + 1)"
proof (cases "1 \<le> \<bar>x\<bar>")
  case True
  define n where "n = nat \<lfloor>\<bar>x\<bar>\<rfloor>"
  have n1: "0 < n" using True by (simp add: n_def)
  have e: "ilog2 x = int (bitlen_nat n) - 1" using True by (simp add: ilog2_def n_def)
  have nle: "of_nat n \<le> \<bar>x\<bar>" and xlt: "\<bar>x\<bar> < of_nat n + 1"
    unfolding n_def using True by (simp_all add: of_nat_nat) linarith+
  have b1: "0 < bitlen_nat n" using n1 by (rule bitlen_nat_pos)
  have "(2::rat) powi ilog2 x = 2 ^ (bitlen_nat n - 1)"
    using b1 by (simp add: e power_int_def nat_diff_distrib')
  also have "\<dots> = of_nat (2 ^ (bitlen_nat n - 1))" by simp
  also have "\<dots> \<le> of_nat n" using bitlen_nat_lower [OF n1] by (simp only: of_nat_le_iff)
  finally have lo: "2 powi ilog2 x \<le> \<bar>x\<bar>" using nle by simp
  have "n + 1 \<le> 2 ^ bitlen_nat n" using bitlen_nat_upper [of n] by simp
  then have "(of_nat (n + 1) :: rat) \<le> of_nat (2 ^ bitlen_nat n)" by (simp only: of_nat_le_iff)
  then have "\<bar>x\<bar> < 2 ^ bitlen_nat n" using xlt by simp
  moreover have "(2::rat) powi (ilog2 x + 1) = 2 ^ bitlen_nat n"
    by (simp add: e power_int_def)
  ultimately show ?thesis using lo by simp
next
  case False
  define a where "a = \<bar>x\<bar>"
  have a0: "0 < a" and a1: "a < 1" using assms False by (simp_all add: a_def)
  define m where "m = nat \<lceil>1 / a\<rceil> - 1"
  have y1: "1 < 1 / a" using a0 a1 by simp
  then have c2: "2 \<le> \<lceil>1 / a\<rceil>" by linarith
  have m1: "0 < m" using c2 by (simp add: m_def)
  have mlt: "of_nat m < 1 / a" and yle: "1 / a \<le> of_nat m + 1"
    unfolding m_def using c2 by (simp_all add: of_nat_diff) linarith+
  have e: "ilog2 x = - int (bitlen_nat m)" using False by (simp add: ilog2_def m_def a_def)
  have b1: "0 < bitlen_nat m" using m1 by (rule bitlen_nat_pos)
  have "m + 1 \<le> 2 ^ bitlen_nat m" using bitlen_nat_upper [of m] by simp
  then have "(of_nat (m + 1) :: rat) \<le> of_nat (2 ^ bitlen_nat m)" by (simp only: of_nat_le_iff)
  then have "1 / a \<le> 2 ^ bitlen_nat m" using yle by simp
  then have "1 \<le> 2 ^ bitlen_nat m * a" using a0 by (simp add: field_simps)
  then have lo: "inverse (2 ^ bitlen_nat m) \<le> a" by (simp add: field_simps)
  have "(of_nat (2 ^ (bitlen_nat m - 1)) :: rat) \<le> of_nat m"
    using bitlen_nat_lower [OF m1] by (simp only: of_nat_le_iff)
  then have "(2::rat) ^ (bitlen_nat m - 1) \<le> of_nat m" by simp
  with mlt have "2 ^ (bitlen_nat m - 1) < 1 / a" by linarith
  then have "2 ^ (bitlen_nat m - 1) * a < 1" using a0 by (simp add: field_simps)
  then have hi: "a < inverse (2 ^ (bitlen_nat m - 1))" by (simp add: field_simps)
  have p1: "(2::rat) powi ilog2 x = inverse (2 ^ bitlen_nat m)"
    by (simp add: e power_int_def power_inverse power_one_over inverse_eq_divide)
  have p2: "(2::rat) powi (ilog2 x + 1) = inverse (2 ^ (bitlen_nat m - 1))"
    using b1 by (simp add: e power_int_def power_inverse nat_diff_distrib' power_one_over
        inverse_eq_divide)
  show ?thesis using lo hi by (simp add: p1 p2 a_def)
qed

lemma round_even_error: "\<bar>of_int (round_even x) - x\<bar> \<le> 1 / 2"
proof -
  have "of_int \<lfloor>x\<rfloor> \<le> x" "x < of_int \<lfloor>x\<rfloor> + 1" by linarith+
  then show ?thesis
    unfolding round_even_def Let_def
    by (auto simp: abs_if split: if_splits; linarith)
qed

lemma round_to_error:
  "\<bar>round_to p emin x - x\<bar> \<le> 2 powi (max (ilog2 x) emin - (int p - 1)) / 2"
proof (cases "x = 0")
  case True then show ?thesis by (simp add: round_to_def)
next
  case False
  define q :: rat where "q = 2 powi (max (ilog2 x) emin - (int p - 1))"
  have q0: "0 < q" by (simp add: q_def)
  have "round_to p emin x - x = (of_int (round_even (x / q)) - x / q) * q"
    using False q0 by (simp add: round_to_def Let_def q_def algebra_simps)
  then have "\<bar>round_to p emin x - x\<bar> = \<bar>of_int (round_even (x / q)) - x / q\<bar> * q"
    using q0 by (simp add: abs_mult)
  also have "\<dots> \<le> (1 / 2) * q"
    using round_even_error [of "x / q"] q0 by (intro mult_right_mono) simp_all
  finally show ?thesis by (simp add: q_def)
qed

lemma ilog2_le:
  assumes "x \<noteq> 0" and "\<bar>x\<bar> < 2 powi (k + 1)"
  shows "ilog2 x \<le> k"
proof (rule ccontr)
  assume "\<not> ilog2 x \<le> k"
  then have "k + 1 \<le> ilog2 x" by simp
  then have "(2::rat) powi (k + 1) \<le> 2 powi ilog2 x"
    by (intro power_int_increasing) simp_all
  with ilog2_bounds [OF assms(1)] assms(2) show False by linarith
qed

lemma f32_error:
  assumes "\<bar>x\<bar> < 2"
  shows "\<bar>f32 x - x\<bar> \<le> 1 / 2 ^ 24"
proof (cases "x = 0")
  case True then show ?thesis by (simp add: f32_def round_to_def)
next
  case False
  have "ilog2 x \<le> 0" using False assms by (intro ilog2_le) simp_all
  then have "max (ilog2 x) (- 126) - (int 24 - 1) \<le> - 23" by simp
  then have "(2::rat) powi (max (ilog2 x) (- 126) - (int 24 - 1)) \<le> 2 powi (- 23)"
    by (intro power_int_increasing) simp_all
  with round_to_error [of 24 "- 126" x]
  have "\<bar>f32 x - x\<bar> \<le> 2 powi (- 23) / 2"
    unfolding f32_def by linarith
  moreover have "(2::rat) powi (- 23) / 2 = 1 / 2 ^ 24"
    by (simp add: power_int_minus)
  ultimately show ?thesis by simp
qed

lemma round_even_between: "\<lfloor>x\<rfloor> \<le> round_even x \<and> round_even x \<le> \<lceil>x\<rceil>"
proof -
  have "of_int \<lfloor>x\<rfloor> \<le> x" "x < of_int \<lfloor>x\<rfloor> + 1" by linarith+
  moreover have "x \<noteq> of_int \<lfloor>x\<rfloor> \<Longrightarrow> \<lceil>x\<rceil> = \<lfloor>x\<rfloor> + 1"
    by (simp add: ceiling_altdef)
  ultimately show ?thesis
    unfolding round_even_def Let_def
    by (auto split: if_splits)
qed

lemma round_even_abs_le:
  assumes "\<bar>x\<bar> \<le> of_int m"
  shows "\<bar>round_even x\<bar> \<le> m"
proof -
  have "x \<le> of_int m" "of_int (- m) \<le> x" using assms by simp_all
  then have "\<lceil>x\<rceil> \<le> m" "- m \<le> \<lfloor>x\<rfloor>" by (simp_all add: ceiling_le_iff le_floor_iff)
  with round_even_between [of x] show ?thesis by linarith
qed

lemma round_to_idem:
  assumes p: "0 < p"
  shows "round_to p emin (round_to p emin x) = round_to p emin x"
proof (cases "x = 0")
  case True then show ?thesis by (simp add: round_to_def)
next
  case False
  define e where "e = max (ilog2 x) emin"
  define q :: rat where "q = 2 powi (e - (int p - 1))"
  define n where "n = round_even (x / q)"
  define y where "y = round_to p emin x"
  have q0: "0 < q" by (simp add: q_def)
  have y: "y = of_int n * q"
    using False by (simp add: y_def round_to_def Let_def n_def q_def e_def)
  have "\<bar>x\<bar> < 2 powi (ilog2 x + 1)" using ilog2_bounds [OF False] by simp
  also have "\<dots> \<le> 2 powi (e + 1)" by (intro power_int_increasing) (simp_all add: e_def)
  finally have xlt: "\<bar>x\<bar> < 2 powi (e + 1)" .
  have qp: "q * 2 ^ p = 2 powi (e + 1)"
  proof -
    have "q * 2 ^ p = 2 powi (e - (int p - 1)) * 2 powi (int p)" by (simp add: q_def)
    also have "\<dots> = 2 powi (e - (int p - 1) + int p)"
      by (rule power_int_add [symmetric]) simp
    also have "e - (int p - 1) + int p = e + 1" by simp
    finally show ?thesis .
  qed
  have "\<bar>x / q\<bar> = \<bar>x\<bar> / q" using q0 by simp
  also have "\<dots> < 2 ^ p" using xlt q0 qp by (simp add: field_simps)
  finally have "\<bar>x / q\<bar> \<le> of_int (2 ^ p)" by simp
  then have nle: "\<bar>n\<bar> \<le> 2 ^ p" unfolding n_def by (rule round_even_abs_le)
  show ?thesis
  proof (cases "y = 0")
    case True
    have z: "round_to p emin 0 = 0" by (simp add: round_to_def)
    from True show ?thesis unfolding y_def by (simp only: z)
  next
    case y0: False
    show ?thesis
    proof (cases "\<bar>n\<bar> < 2 ^ p")
      case True
      then have "of_int \<bar>n\<bar> < (of_int (2 ^ p) :: rat)" by (simp only: of_int_less_iff)
      then have "\<bar>of_int n :: rat\<bar> < 2 ^ p" by simp
      then have "\<bar>y\<bar> < 2 ^ p * q" using q0 by (simp add: y abs_mult)
      then have "\<bar>y\<bar> < 2 powi (e + 1)" using qp by (simp add: mult.commute)
      then have "ilog2 y \<le> e" using y0 by (intro ilog2_le)
      then have "max (ilog2 y) emin - (int p - 1) \<le> e - (int p - 1)" by (simp add: e_def)
      with y have "round_to p emin y = y" unfolding q_def by (rule round_to_exact)
      then show ?thesis by (simp add: y_def)
    next
      case False
      with nle have n2: "\<bar>n\<bar> = 2 ^ p" by simp
      obtain s :: int where s: "n = s * 2 ^ p" "\<bar>s\<bar> = 1"
        using n2 by (cases "0 \<le> n") (auto intro: that [of 1] that [of "- 1"])
      have "p = Suc (p - 1)" using p by simp
      then have pw: "(2::int) ^ p = 2 ^ (p - 1) * 2" by (metis power_Suc2)
      have "y = of_int s * (q * 2 ^ p)" by (simp add: y s)
      then have y2: "y = of_int s * 2 powi (e + 1)" by (simp only: qp)
      have "q * 2 = 2 powi (e - (int p - 1)) * 2 powi 1" by (simp add: q_def)
      also have "\<dots> = 2 powi (e - (int p - 1) + 1)"
        by (rule power_int_add [symmetric]) simp
      also have "e - (int p - 1) + 1 = e + 1 - (int p - 1)" by simp
      finally have q2: "q * 2 = 2 powi (e + 1 - (int p - 1))" .
      have "y = of_int (s * 2 ^ (p - 1)) * (q * 2)"
        using pw by (simp add: y s)
      then have y3: "y = of_int (s * 2 ^ (p - 1)) * 2 powi (e + 1 - (int p - 1))"
        by (simp only: q2)
      have "\<bar>y\<bar> = 2 powi (e + 1)" using s(2) by (simp add: y2 abs_mult)
      also have "\<dots> < 2 powi (e + 1 + 1)" by (intro power_int_strict_increasing) simp_all
      finally have "ilog2 y \<le> e + 1" using y0 by (intro ilog2_le)
      then have "max (ilog2 y) emin - (int p - 1) \<le> e + 1 - (int p - 1)" by (simp add: e_def)
      with y3 have "round_to p emin y = y" by (rule round_to_exact)
      then show ?thesis by (simp add: y_def)
    qed
  qed
qed

lemma is_f32_f32: "is_f32 (f32 x)"
  by (simp add: is_f32_def f32_def round_to_idem)

lemma ilog2_ge:
  assumes "x \<noteq> 0" and "2 powi k \<le> \<bar>x\<bar>"
  shows "k \<le> ilog2 x"
proof (rule ccontr)
  assume "\<not> k \<le> ilog2 x"
  then have "ilog2 x + 1 \<le> k" by simp
  then have "(2::rat) powi (ilog2 x + 1) \<le> 2 powi k"
    by (intro power_int_increasing) simp_all
  with ilog2_bounds [OF assms(1)] assms(2) show False by linarith
qed

lemma is_f32_half:
  assumes f: "is_f32 x" and n: "2 powi (- 125) \<le> \<bar>x\<bar>"
  shows "is_f32 (x / 2)"
proof -
  have "(0::rat) < 2 powi (- 125)" by simp
  with n have x0: "x \<noteq> 0" by auto
  have e: "- 125 \<le> ilog2 x" using x0 n by (rule ilog2_ge)
  define k where "k = ilog2 x - (int 24 - 1)"
  define m where "m = round_even (x / 2 powi k)"
  have "max (ilog2 x) (- 126) = ilog2 x" using e by simp
  then have x: "x = of_int m * 2 powi k"
    using f x0 round_to_multiple [of x 24 "- 126"] by (simp add: is_f32_def f32_def k_def m_def)
  have "(2::rat) powi (k - 1) = 2 powi k / 2"
    by (simp add: power_int_diff)
  then have h: "x / 2 = of_int m * 2 powi (k - 1)"
    using x by simp
  have "\<bar>x / 2\<bar> < 2 powi (ilog2 x - 1 + 1)"
    using ilog2_bounds [OF x0] by (simp add: power_int_add)
  then have "ilog2 (x / 2) \<le> ilog2 x - 1" using x0 by (intro ilog2_le) simp_all
  then have "max (ilog2 (x / 2)) (- 126) - (int 24 - 1) \<le> k - 1"
    using e by (simp add: k_def)
  with h have "round_to 24 (- 126) (x / 2) = x / 2" by (rule round_to_exact)
  then show ?thesis by (simp add: is_f32_def f32_def)
qed

lemma fmul_minus_one: "is_f32 x \<Longrightarrow> fmul (float_of_int (- 1)) x = - x"
  by (simp add: fmul_def float_of_int_minus_one f32_minus is_f32_def)

lemma fmul_one: "is_f32 x \<Longrightarrow> fmul (float_of_int 1) x = x"
  by (simp add: fmul_def float_of_int_one is_f32_def)

lemma fmul_by_minus_one: "is_f32 x \<Longrightarrow> fmul x (float_of_int (- 1)) = - x"
  by (simp add: fmul_def float_of_int_minus_one f32_minus is_f32_def)

lemma fmul_by_one: "is_f32 x \<Longrightarrow> fmul x (float_of_int 1) = x"
  by (simp add: fmul_def float_of_int_one is_f32_def)

lemma f32_f32: "f32 (f32 x) = f32 x"
  using is_f32_f32 [of x] by (simp add: is_f32_def)

lemma f64_f32: "f64 (f32 x) = f32 x"
  using is_f32_f32 by (rule f32_imp_f64)

lemma default_IPD_value: "g_defaultIPD = 8589935 / 134217728"
  unfolding g_defaultIPD_def by code_simp

lemma fallback_left: "fmul (fmul (float_of_int (- 1)) g_defaultIPD) (1 / 2) = - (g_defaultIPD / 2)"
  unfolding default_IPD_value by code_simp

lemma fallback_right: "fmul (fmul (float_of_int 1) g_defaultIPD) (1 / 2) = g_defaultIPD / 2"
  unfolding default_IPD_value by code_simp

lemma dk1_numbers:
  "is_f32 (8589935 / 134217728)"
  "is_f32 (8589935 / 268435456)"
  "f32 (8589935 / 268435456) = 8589935 / 268435456"
  "is_f32 (10198937 / 67108864)"
  "f32 (1 / 2 + f32 (10198937 / 134217728)) = 9663475 / 16777216"
  "f32 (1 / 2 - f32 (10198937 / 134217728)) = 7113741 / 16777216"
  "f32 (1 / 2 + f32 (13421773 / 134217728)) = 5033165 / 8388608"
  "f32 (1 / 2 - f32 (13421773 / 134217728)) = 13421773 / 33554432"
  "f32 (1 / 2) = 1 / 2"
  by code_simp+

lemma lens_centers_sum:
  fixes h :: rat
  shows "(is_f32 (1 / 2 + h) \<and> is_f32 (1 / 2 - h) \<longrightarrow> f32 (1 / 2 + h) + f32 (1 / 2 - h) = 1) \<and>
         (\<bar>h\<bar> \<le> 1 \<longrightarrow> \<bar>f32 (1 / 2 + h) + f32 (1 / 2 - h) - 1\<bar> \<le> 1 / 2 ^ 23)"
proof (intro conjI impI)
  assume "is_f32 (1 / 2 + h) \<and> is_f32 (1 / 2 - h)"
  then show "f32 (1 / 2 + h) + f32 (1 / 2 - h) = 1" by (simp add: is_f32_def)
next
  assume h: "\<bar>h\<bar> \<le> 1"
  then have a: "\<bar>1 / 2 + h\<bar> < 2" and b: "\<bar>1 / 2 - h\<bar> < 2" by linarith+
  have ea: "\<bar>f32 (1 / 2 + h) - (1 / 2 + h)\<bar> \<le> 1 / 2 ^ 24"
    using a by (rule f32_error)
  have eb: "\<bar>f32 (1 / 2 - h) - (1 / 2 - h)\<bar> \<le> 1 / 2 ^ 24"
    using b by (rule f32_error)
  have "f32 (1 / 2 + h) + f32 (1 / 2 - h) - 1 =
          (f32 (1 / 2 + h) - (1 / 2 + h)) + (f32 (1 / 2 - h) - (1 / 2 - h))"
    by simp
  then have "\<bar>f32 (1 / 2 + h) + f32 (1 / 2 - h) - 1\<bar> \<le>
          \<bar>f32 (1 / 2 + h) - (1 / 2 + h)\<bar> + \<bar>f32 (1 / 2 - h) - (1 / 2 - h)\<bar>"
    by (simp only: abs_triangle_ineq)
  moreover have "(1 / 2 ^ 24 :: rat) + 1 / 2 ^ 24 = 1 / 2 ^ 23" by simp
  ultimately show "\<bar>f32 (1 / 2 + h) + f32 (1 / 2 - h) - 1\<bar> \<le> 1 / 2 ^ 23"
    using ea eb by linarith
qed

lemma f32_half_bound:
  assumes "\<bar>x\<bar> \<le> 1"
  shows "\<bar>f32 (x / 2)\<bar> \<le> 1"
proof -
  have "\<bar>x / 2\<bar> < 2" using assms by simp
  then have "\<bar>f32 (x / 2) - x / 2\<bar> \<le> 1 / 2 ^ 24" by (rule f32_error)
  then have "\<bar>f32 (x / 2)\<bar> \<le> \<bar>x / 2\<bar> + 1 / 2 ^ 24" by linarith
  moreover have "\<bar>x / 2\<bar> \<le> 1 / 2" using assms by simp
  moreover have "(1 / 2 :: rat) + 1 / 2 ^ 24 \<le> 1" by simp
  ultimately show ?thesis by linarith
qed

lemma sqrt_of_rat_square: "sqrt (of_rat ((2 * a) ^ 2)) = 2 * \<bar>real_of_rat a\<bar>"
proof -
  have "sqrt (of_rat ((2 * a) ^ 2)) = sqrt ((of_rat (2 * a)) ^ 2)"
    by (simp only: of_rat_power)
  also have "\<dots> = \<bar>real_of_rat (2 * a)\<bar>" by (rule real_sqrt_abs)
  also have "\<dots> = 2 * \<bar>real_of_rat a\<bar>" by (simp add: of_rat_mult abs_mult)
  finally show ?thesis .
qed

lemma distance_y: "distance (Vector3 0 a 0) (Vector3 0 (- a) 0) = 2 * \<bar>real_of_rat a\<bar>"
proof -
  have "(0 - 0 :: rat) ^ 2 + (a - - a) ^ 2 + (0 - 0) ^ 2 = (2 * a) ^ 2"
    by (simp add: power2_eq_square algebra_simps)
  then have "distance (Vector3 0 a 0) (Vector3 0 (- a) 0) = sqrt (of_rat ((2 * a) ^ 2))"
    unfolding distance_def Vector3.sel by (rule arg_cong)
  then show ?thesis by (simp only: sqrt_of_rat_square)
qed

lemma distance_x: "distance (Vector3 (- a) 0 0) (Vector3 a 0 0) = 2 * \<bar>real_of_rat a\<bar>"
proof -
  have "(- a - a) ^ 2 + (0 - 0 :: rat) ^ 2 + (0 - 0) ^ 2 = (2 * a) ^ 2"
    by (simp add: power2_eq_square algebra_simps)
  then have "distance (Vector3 (- a) 0 0) (Vector3 a 0 0) = sqrt (of_rat ((2 * a) ^ 2))"
    unfolding distance_def Vector3.sel by (rule arg_cong)
  then show ?thesis by (simp only: sqrt_of_rat_square)
qed

lemma setTrans_x: "setTrans (Vector3 t 0 0) IDENTITY = xTranslation t"
  by (simp add: setTrans_def IDENTITY_def xTranslation_def)

section \<open>Verified properties\<close>

subsection \<open>Construction\<close>

lemma construct_dk1:
  "OculusCamera_OculusCamera dk1_sdk plain_Camera ''user'' [] = Inr dk1_camera"
  by (simp add: OculusCamera_OculusCamera_def dk1_sdk_def dk1_manager_def dk1_hmd_def
      dk1_camera_def plain_Camera_def dk1_config_def dk1_fusion_def idle_fusion_def
      AttachToSensor_def SetPredictionEnabled_def dk1_info_def)

text \<open>
  Claim C8. The constructor throws exactly when the device manager cannot be created,
  when the stereo configuration cannot be allocated, or when no sensor can be obtained.
  When it returns, the sensor is the one of the HMD device if there is such a device, whose
  device info has then been stored in the stereo configuration; otherwise the sensor is
  the one found by enumerating sensor devices directly.
\<close>

theorem constructor_throws_iff:
  "((\<exists>e. OculusCamera_OculusCamera ovr B nm scene = Inl e) \<longleftrightarrow>
      (DeviceManager_Create ovr = None \<or> new_StereoConfig ovr = None \<or>
       (\<exists>dm. DeviceManager_Create ovr = Some dm \<and>
          (case EnumerateDevices_HMDDevice dm of
             Some h \<Rightarrow> GetSensor h = None
           | None \<Rightarrow> EnumerateDevices_SensorDevice dm = None)))) \<and>
   (\<forall>this. OculusCamera_OculusCamera ovr B nm scene = Inr this \<longrightarrow>
      (\<exists>dm sc. DeviceManager_Create ovr = Some dm \<and> new_StereoConfig ovr = Some sc \<and>
         deviceManager this = Some dm \<and> hmd this = EnumerateDevices_HMDDevice dm \<and>
         sensor this \<noteq> None \<and>
         (case hmd this of
            Some h \<Rightarrow> sensor this = GetSensor h \<and>
                      stereoConfig this = Some (SetHMDInfo ovr (GetDeviceInfo h) sc)
          | None \<Rightarrow> sensor this = EnumerateDevices_SensorDevice dm \<and>
                    stereoConfig this = Some sc)))"
  by (auto simp: OculusCamera_OculusCamera_def Let_def split: option.splits)

theorem constructor_throws_iff_witness:
  "OculusCamera_OculusCamera dk1_sdk plain_Camera ''user'' [] = Inr dk1_camera \<and>
   DeviceManager_Create dk1_sdk = Some dk1_manager \<and>
   new_StereoConfig dk1_sdk = Some dk1_config \<and>
   hmd dk1_camera = Some dk1_hmd \<and>
   sensor dk1_camera = GetSensor dk1_hmd \<and>
   stereoConfig dk1_camera = Some (SetHMDInfo dk1_sdk (GetDeviceInfo dk1_hmd) dk1_config)"
  using constructor_throws_iff [of dk1_sdk plain_Camera "''user''" "[]"] construct_dk1
  by (simp add: dk1_sdk_def dk1_manager_def dk1_camera_def dk1_hmd_def dk1_config_def)

subsection \<open>The per-frame update\<close>

text \<open>
  Claim C1. When the constructor reaches the sensor fusion it leaves it with prediction
  enabled. Each call of \<^verbatim>\<open>Update\<close> on an adapter with a sensor fusion reads the predicted
  orientation \<open>(w, x, y, z)\<close> and, after the inherited update, hands the remapped
  quaternion \<open>(w, -z, -x, y)\<close> to the inherited \<^verbatim>\<open>SetWorldRotation\<close>; if that method
  stores the rotation it is given, the world rotation is the remapped quaternion.
\<close>

theorem Update_sets_remapped_rotation:
  "(OculusCamera_OculusCamera ovr B nm scene = Inr this0 \<longrightarrow> new_SensorFusion ovr \<noteq> None \<longrightarrow>
      (\<exists>sf0. sensorFusion this0 = Some sf0 \<and> predictionEnabled sf0)) \<and>
   (sensorFusion this = Some sf \<longrightarrow>
      (let q = GetPredictedOrientation sf;
           quat = Quaternion (Quatf_w q) (- Quatf_z q) (- Quatf_x q) (Quatf_y q)
       in Update B this =
            Inr (this\<lparr>base := SetWorldRotation B quat (Camera_Update B (base this))\<rparr>) \<and>
          ((\<forall>r c. worldRotation (SetWorldRotation B r c) = r) \<longrightarrow>
             (\<exists>this'. Update B this = Inr this' \<and> worldRotation (base this') = quat))))"
  by (auto simp: OculusCamera_OculusCamera_def Update_def Let_def SetPredictionEnabled_def
      split: option.splits)

theorem Update_sets_remapped_rotation_witness:
  "OculusCamera_OculusCamera dk1_sdk plain_Camera ''user'' [] = Inr dk1_camera \<and>
   new_SensorFusion dk1_sdk \<noteq> None \<and>
   sensorFusion dk1_camera = Some dk1_fusion \<and> predictionEnabled dk1_fusion \<and>
   sensorFusion (dk1_camera\<lparr>sensorFusion :=
       Some (dk1_fusion\<lparr>GetPredictedOrientation := Quatf (1 / 2) (1 / 4) (1 / 8) (3 / 4)\<rparr>)\<rparr>) =
     Some (dk1_fusion\<lparr>GetPredictedOrientation := Quatf (1 / 2) (1 / 4) (1 / 8) (3 / 4)\<rparr>) \<and>
   rotationAfter (Update plain_Camera (dk1_camera\<lparr>sensorFusion :=
       Some (dk1_fusion\<lparr>GetPredictedOrientation := Quatf (1 / 2) (1 / 4) (1 / 8) (3 / 4)\<rparr>)\<rparr>)) =
     Some (Quaternion (3 / 4) (- (1 / 8)) (- (1 / 2)) (1 / 4))"
proof -
  let ?sf = "dk1_fusion\<lparr>GetPredictedOrientation := Quatf (1 / 2) (1 / 4) (1 / 8) (3 / 4)\<rparr>"
  let ?cam = "dk1_camera\<lparr>sensorFusion := Some ?sf\<rparr>"
  have s: "\<forall>r c. worldRotation (SetWorldRotation plain_Camera r c) = r"
    by (simp add: plain_Camera_def)
  have n: "new_SensorFusion dk1_sdk \<noteq> None"
    by (simp add: dk1_sdk_def)
  have f: "sensorFusion ?cam = Some ?sf"
    by simp
  show ?thesis
    using construct_dk1 n s f
      Update_sets_remapped_rotation [where ovr = dk1_sdk and B = plain_Camera
        and nm = "''user''" and scene = "[]" and ?this0.0 = dk1_camera
        and this = ?cam and sf = ?sf]
    by (auto simp: Let_def rotationAfter_def dk1_camera_def dk1_fusion_def)
qed

text \<open>
  Claim C5, as amended. On every frame \<^verbatim>\<open>Update\<close> takes the world orientation from the
  motion sensor: when the inherited \<^verbatim>\<open>SetWorldRotation\<close> stores the rotation and leaves
  the position alone, the world rotation after the call is the remapped predicted
  orientation, and the world position is the one the inherited update left. The
  position is not taken from the sensor.
\<close>

theorem Update_sets_orientation_only:
  assumes "sensorFusion this = Some sf"
    and "\<forall>r c. worldRotation (SetWorldRotation B r c) = r \<and>
               worldPosition (SetWorldRotation B r c) = worldPosition c"
  shows "\<exists>this'. Update B this = Inr this' \<and>
           worldRotation (base this') =
             Quaternion (Quatf_w (GetPredictedOrientation sf))
               (- Quatf_z (GetPredictedOrientation sf))
               (- Quatf_x (GetPredictedOrientation sf))
               (Quatf_y (GetPredictedOrientation sf)) \<and>
           worldPosition (base this') = worldPosition (Camera_Update B (base this))"
  using assms by (simp add: Update_def Let_def)

theorem Update_sets_orientation_only_witness:
  "sensorFusion
     (dk1_camera\<lparr>base := (base dk1_camera)\<lparr>worldPosition := Vector3 1 2 3\<rparr>,
        sensorFusion :=
          Some (dk1_fusion\<lparr>GetPredictedOrientation := Quatf (1 / 2) (1 / 4) (1 / 8) (3 / 4)\<rparr>)\<rparr>) =
     Some (dk1_fusion\<lparr>GetPredictedOrientation := Quatf (1 / 2) (1 / 4) (1 / 8) (3 / 4)\<rparr>) \<and>
   rotationAfter (Update plain_Camera
     (dk1_camera\<lparr>base := (base dk1_camera)\<lparr>worldPosition := Vector3 1 2 3\<rparr>,
        sensorFusion :=
          Some (dk1_fusion\<lparr>GetPredictedOrientation := Quatf (1 / 2) (1 / 4) (1 / 8) (3 / 4)\<rparr>)\<rparr>)) =
     Some (Quaternion (3 / 4) (- (1 / 8)) (- (1 / 2)) (1 / 4)) \<and>
   positionAfter (Update plain_Camera
     (dk1_camera\<lparr>base := (base dk1_camera)\<lparr>worldPosition := Vector3 1 2 3\<rparr>,
        sensorFusion :=
          Some (dk1_fusion\<lparr>GetPredictedOrientation := Quatf (1 / 2) (1 / 4) (1 / 8) (3 / 4)\<rparr>)\<rparr>)) =
     Some (Vector3 1 2 3)"
proof -
  let ?sf = "dk1_fusion\<lparr>GetPredictedOrientation := Quatf (1 / 2) (1 / 4) (1 / 8) (3 / 4)\<rparr>"
  let ?cam = "dk1_camera\<lparr>base := (base dk1_camera)\<lparr>worldPosition := Vector3 1 2 3\<rparr>,
                sensorFusion := Some ?sf\<rparr>"
  have f: "sensorFusion ?cam = Some ?sf"
    by simp
  have s: "\<forall>r c. worldRotation (SetWorldRotation plain_Camera r c) = r \<and>
               worldPosition (SetWorldRotation plain_Camera r c) = worldPosition c"
    by (simp add: plain_Camera_def)
  have u: "worldPosition (Camera_Update plain_Camera
             ((base dk1_camera)\<lparr>worldPosition := Vector3 1 2 3\<rparr>)) = Vector3 1 2 3"
    by (simp add: plain_Camera_def)
  show ?thesis
    using f Update_sets_orientation_only [OF f s]
    by (auto simp: rotationAfter_def positionAfter_def u)
qed

text \<open>
  Claim C5 as first stated, with the position also taken from the sensor, fails: two
  adapters with the same sensor reading and different positions keep their different
  positions through \<^verbatim>\<open>Update\<close>.
\<close>

theorem Update_position_not_from_sensor:
  "sensorFusion (dk1_camera\<lparr>base := (base dk1_camera)\<lparr>worldPosition := Vector3 1 2 3\<rparr>\<rparr>) =
     sensorFusion dk1_camera \<and>
   positionAfter (Update plain_Camera
     (dk1_camera\<lparr>base := (base dk1_camera)\<lparr>worldPosition := Vector3 1 2 3\<rparr>\<rparr>)) =
     Some (Vector3 1 2 3) \<and>
   positionAfter (Update plain_Camera dk1_camera) = Some (Vector3 0 0 0)"
  by (simp add: Update_def Let_def dk1_camera_def plain_Camera_def positionAfter_def)

subsection \<open>Initialisation\<close>

lemma Init_dk1:
  "Init plain_Ogre plain_Camera FORWARD dk1_camera = Inr dk1_initialised"
  by (simp add: Init_def createCamera_def plain_Ogre_def plain_Camera_def dk1_camera_def
      dk1_initialised_def dk1_left_def dk1_right_def GZ_DTOR_def Let_def)

lemma Init_result:
  assumes "Init G B pathType this = Inr this'"
  shows "\<exists>lc0 sn0.
     camera (SetHFOV B (GZ_DTOR 60) (Camera_Init B (base this))) = Some lc0 \<and>
     sceneNode (SetHFOV B (GZ_DTOR 60) (Camera_Init B (base this))) = Some sn0 \<and>
     ''UserRight'' \<notin> set (sceneCameras (SetHFOV B (GZ_DTOR 60) (Camera_Init B (base this)))) \<and>
     this' = this
       \<lparr>base := SetClipDist B g_defaultNearClip g_defaultFarClip
          ((SetHFOV B (GZ_DTOR 60) (Camera_Init B (base this)))
             \<lparr>sceneCameras :=
                sceneCameras (SetHFOV B (GZ_DTOR 60) (Camera_Init B (base this))) @ [''UserRight''],
              sceneNode := Some (sn0\<lparr>attachedObjects := attachedObjects sn0 @ [''UserRight'']\<rparr>),
              camera := Some (lc0\<lparr>autoAspectRatio := False,
                                   nearClipDistance := g_defaultNearClip,
                                   farClipDistance := g_defaultFarClip\<rparr>)\<rparr>),
        rightCamera := Some ((freshCamera G)
          \<lparr>cameraName := ''UserRight'',
           orientationCalls := orientationCalls (freshCamera G) @
             [pitch (Degree 90), setFixedYawAxis True UNIT_Z, setDirection 1 0 0],
           autoAspectRatio := False,
           nearClipDistance := g_defaultNearClip,
           farClipDistance := g_defaultFarClip\<rparr>)\<rparr>"
  using assms
  by (auto simp: Init_def Let_def createCamera_def
      split: sum.splits option.splits prod.splits RenderPathType.splits if_splits)

lemma default_clip_values:
  "g_defaultNearClip = 13421773 / 134217728" "g_defaultFarClip = 5000"
proof -
  show "g_defaultNearClip = 13421773 / 134217728"
    unfolding g_defaultNearClip_def by code_simp
  have "ilog2 5000 \<le> 23"
    by (rule ilog2_le) simp_all
  then have "max (ilog2 5000) (- 126) - (int 24 - 1) \<le> 0"
    by simp
  moreover have "(5000 :: rat) = of_int 5000 * 2 powi 0"
    by simp
  ultimately have "round_to 24 (- 126) 5000 = 5000"
    by (rule round_to_exact [rotated])
  then show "g_defaultFarClip = 5000"
    by (simp add: g_defaultFarClip_def f32_def)
qed

text \<open>
  Claim C7. When \<^verbatim>\<open>Init\<close> completes, the adapter holds two eye cameras: the left one it
  inherited and a right one, newly created under the name UserRight and attached to the
  adapter's scene node. Both have the automatic aspect ratio switched off and the near
  and far clip distances \<^verbatim>\<open>g_defaultNearClip\<close> (0.1 in single precision) and
  \<^verbatim>\<open>g_defaultFarClip\<close> (5000). The last step of \<^verbatim>\<open>Init\<close> is the inherited
  \<^verbatim>\<open>SetClipDist\<close> with these two distances; it cannot reach the right camera, and the
  left camera keeps its settings when that method only sets the two distances.
\<close>

theorem Init_two_eye_cameras:
  assumes "Init G B pathType this = Inr this'"
  shows "\<exists>mid lc0 lc rc sn0 sn.
     this' = mid\<lparr>base := SetClipDist B g_defaultNearClip g_defaultFarClip (base mid)\<rparr> \<and>
     camera (SetHFOV B (GZ_DTOR 60) (Camera_Init B (base this))) = Some lc0 \<and>
     sceneNode (SetHFOV B (GZ_DTOR 60) (Camera_Init B (base this))) = Some sn0 \<and>
     ''UserRight'' \<notin> set (sceneCameras (SetHFOV B (GZ_DTOR 60) (Camera_Init B (base this)))) \<and>
     camera (base mid) = Some lc \<and> rightCamera this' = Some rc \<and>
     sceneNode (base mid) = Some sn \<and>
     lc = lc0\<lparr>autoAspectRatio := False, nearClipDistance := g_defaultNearClip,
              farClipDistance := g_defaultFarClip\<rparr> \<and>
     cameraName rc = ''UserRight'' \<and>
     attachedObjects sn = attachedObjects sn0 @ [''UserRight''] \<and>
     autoAspectRatio rc = False \<and>
     nearClipDistance rc = g_defaultNearClip \<and> farClipDistance rc = g_defaultFarClip \<and>
     \<bar>g_defaultNearClip - 1 / 10\<bar> < 1 / 10 ^ 8 \<and> g_defaultFarClip = 5000 \<and>
     ((\<forall>c k. camera c = Some k \<longrightarrow>
          camera (SetClipDist B g_defaultNearClip g_defaultFarClip c) =
            Some (k\<lparr>nearClipDistance := g_defaultNearClip, farClipDistance := g_defaultFarClip\<rparr>)) \<longrightarrow>
        camera (base this') = Some lc)"
proof -
  define b0 where "b0 = SetHFOV B (GZ_DTOR 60) (Camera_Init B (base this))"
  from Init_result [OF assms] obtain lc0 sn0 where
    lc0: "camera b0 = Some lc0" and sn0: "sceneNode b0 = Some sn0" and
    fresh: "''UserRight'' \<notin> set (sceneCameras b0)" and
    this': "this' = this
       \<lparr>base := SetClipDist B g_defaultNearClip g_defaultFarClip
          (b0\<lparr>sceneCameras := sceneCameras b0 @ [''UserRight''],
              sceneNode := Some (sn0\<lparr>attachedObjects := attachedObjects sn0 @ [''UserRight'']\<rparr>),
              camera := Some (lc0\<lparr>autoAspectRatio := False,
                                   nearClipDistance := g_defaultNearClip,
                                   farClipDistance := g_defaultFarClip\<rparr>)\<rparr>),
        rightCamera := Some ((freshCamera G)
          \<lparr>cameraName := ''UserRight'',
           orientationCalls := orientationCalls (freshCamera G) @
             [pitch (Degree 90), setFixedYawAxis True UNIT_Z, setDirection 1 0 0],
           autoAspectRatio := False,
           nearClipDistance := g_defaultNearClip,
           farClipDistance := g_defaultFarClip\<rparr>)\<rparr>"
    unfolding b0_def by blast
  define mid where "mid = this
       \<lparr>base := b0\<lparr>sceneCameras := sceneCameras b0 @ [''UserRight''],
              sceneNode := Some (sn0\<lparr>attachedObjects := attachedObjects sn0 @ [''UserRight'']\<rparr>),
              camera := Some (lc0\<lparr>autoAspectRatio := False,
                                   nearClipDistance := g_defaultNearClip,
                                   farClipDistance := g_defaultFarClip\<rparr>)\<rparr>,
        rightCamera := Some ((freshCamera G)
          \<lparr>cameraName := ''UserRight'',
           orientationCalls := orientationCalls (freshCamera G) @
             [pitch (Degree 90), setFixedYawAxis True UNIT_Z, setDirection 1 0 0],
           autoAspectRatio := False,
           nearClipDistance := g_defaultNearClip,
           farClipDistance := g_defaultFarClip\<rparr>)\<rparr>"
  have "this' = mid\<lparr>base := SetClipDist B g_defaultNearClip g_defaultFarClip (base mid)\<rparr>"
    by (simp add: this' mid_def)
  moreover have "camera (base mid) = Some (lc0\<lparr>autoAspectRatio := False,
      nearClipDistance := g_defaultNearClip, farClipDistance := g_defaultFarClip\<rparr>)"
    by (simp add: mid_def)
  moreover have "sceneNode (base mid) =
      Some (sn0\<lparr>attachedObjects := attachedObjects sn0 @ [''UserRight'']\<rparr>)"
    by (simp add: mid_def)
  moreover have "rightCamera this' = Some ((freshCamera G)
          \<lparr>cameraName := ''UserRight'',
           orientationCalls := orientationCalls (freshCamera G) @
             [pitch (Degree 90), setFixedYawAxis True UNIT_Z, setDirection 1 0 0],
           autoAspectRatio := False,
           nearClipDistance := g_defaultNearClip,
           farClipDistance := g_defaultFarClip\<rparr>)"
    by (simp add: this')
  moreover have "\<bar>g_defaultNearClip - 1 / 10\<bar> < 1 / 10 ^ 8"
    by (simp add: default_clip_values)
  moreover note default_clip_values(2)
  ultimately show ?thesis
    using lc0 sn0 fresh unfolding b0_def [symmetric]
    by (intro exI [of _ mid] exI [of _ lc0] exI [of _ sn0]
        exI [of _ "lc0\<lparr>autoAspectRatio := False, nearClipDistance := g_defaultNearClip,
              farClipDistance := g_defaultFarClip\<rparr>"]
        exI [of _ "sn0\<lparr>attachedObjects := attachedObjects sn0 @ [''UserRight'']\<rparr>"]
        exI [of _ "(freshCamera G)
          \<lparr>cameraName := ''UserRight'',
           orientationCalls := orientationCalls (freshCamera G) @
             [pitch (Degree 90), setFixedYawAxis True UNIT_Z, setDirection 1 0 0],
           autoAspectRatio := False,
           nearClipDistance := g_defaultNearClip,
           farClipDistance := g_defaultFarClip\<rparr>"]) simp
qed

theorem Init_two_eye_cameras_witness:
  "Init plain_Ogre plain_Camera FORWARD dk1_camera = Inr dk1_initialised \<and>
   camera (base dk1_initialised) = Some dk1_left \<and>
   rightCamera dk1_initialised = Some dk1_right \<and>
   sceneNode (base dk1_initialised) = Some \<lparr>attachedObjects = [''user'', ''UserRight'']\<rparr> \<and>
   cameraName dk1_right = ''UserRight'' \<and>
   autoAspectRatio dk1_left = False \<and> autoAspectRatio dk1_right = False \<and>
   nearClipDistance dk1_left = g_defaultNearClip \<and> farClipDistance dk1_left = g_defaultFarClip \<and>
   nearClipDistance dk1_right = g_defaultNearClip \<and> farClipDistance dk1_right = g_defaultFarClip"
proof -
  have s: "\<forall>c k. camera c = Some k \<longrightarrow>
      camera (SetClipDist plain_Camera g_defaultNearClip g_defaultFarClip c) =
        Some (k\<lparr>nearClipDistance := g_defaultNearClip, farClipDistance := g_defaultFarClip\<rparr>)"
    by (simp add: plain_Camera_def)
  show ?thesis
    using s Init_dk1 Init_two_eye_cameras [OF Init_dk1]
    by (simp add: dk1_initialised_def dk1_camera_def dk1_left_def dk1_right_def)
qed

subsection \<open>The structure of the stereo set-up\<close>


lemma Oculus_loop_two:
  "Oculus_loop G res 0 this =
     (case Oculus_eye G res 0 this of
        Inl e \<Rightarrow> Inl e
      | Inr t \<Rightarrow> Oculus_eye G res 1 t)"
proof -
  have l2: "Oculus_loop G res (Suc (Suc 0)) t = Inr t" for t :: "'a OculusCamera"
    by (subst Oculus_loop.simps) simp
  have l1: "Oculus_loop G res (Suc 0) t = Oculus_eye G res (Suc 0) t" for t :: "'a OculusCamera"
    by (subst Oculus_loop.simps) (simp add: l2 split: sum.splits)
  show ?thesis
    by (subst Oculus_loop.simps) (simp add: l1 split: sum.splits)
qed

lemma Oculus_eye_left:
  assumes "Oculus_eye G res 0 this = Inr t"
  shows "\<exists>lc. camera (base this) = Some lc \<and>
           ''OculusLeft'' \<in> dom (compositorMaterial res) \<and>
           t = this\<lparr>base := (base this)\<lparr>camera :=
                         Some (setupEyeCamera G (stereoConfig this) (- 1) lc)\<rparr>,
                    compositors := (compositors this)
                      [0 := Some \<lparr>compositorName = ''OculusLeft'', onViewport = LeftEye,
                                  compositorEnabled = True\<rparr>]\<rparr>"
  using assms
  by (auto simp: Oculus_eye_def Let_def addCompositor_def split: option.splits if_splits)

lemma Oculus_eye_right:
  assumes "Oculus_eye G res 1 this = Inr t"
  shows "\<exists>rc. rightCamera this = Some rc \<and>
           ''OculusRight'' \<in> dom (compositorMaterial res) \<and>
           t = this\<lparr>rightCamera := Some (setupEyeCamera G (stereoConfig this) 1 rc),
                    compositors := (compositors this)
                      [1 := Some \<lparr>compositorName = ''OculusRight'', onViewport = RightEye,
                                  compositorEnabled = True\<rparr>]\<rparr>"
  using assms
  by (auto simp: Oculus_eye_def Let_def addCompositor_def split: option.splits if_splits)

lemma Oculus_loop_result:
  assumes "Oculus_loop G res 0 this = Inr t"
  shows "\<exists>lc rc. camera (base this) = Some lc \<and> rightCamera this = Some rc \<and>
           camera (base t) = Some (setupEyeCamera G (stereoConfig this) (- 1) lc) \<and>
           rightCamera t = Some (setupEyeCamera G (stereoConfig this) 1 rc) \<and>
           stereoConfig t = stereoConfig this \<and> sensorFusion t = sensorFusion this \<and>
           controlSub t = controlSub this"
proof -
  from assms obtain u where u: "Oculus_eye G res 0 this = Inr u" "Oculus_eye G res 1 u = Inr t"
    by (auto simp: Oculus_loop_two split: sum.splits)
  from Oculus_eye_left [OF u(1)] Oculus_eye_right [OF u(2)] show ?thesis
    by auto
qed

lemma Oculus_cameras:
  assumes "Oculus G res this = Inr (res', this')"
  shows "\<exists>lc rc. camera (base this) = Some lc \<and> rightCamera this = Some rc \<and>
           camera (base this') = Some (setupEyeCamera G (stereoConfig this) (- 1) lc) \<and>
           rightCamera this' = Some (setupEyeCamera G (stereoConfig this) 1 rc) \<and>
           stereoConfig this' = stereoConfig this \<and> sensorFusion this' = sensorFusion this \<and>
           controlSub this' = controlSub this"
proof -
  from assms obtain r where "Oculus_loop G r 0 this = Inr this'"
    by (auto simp: Oculus_def Let_def split: option.splits sum.splits)
  then show ?thesis by (rule Oculus_loop_result)
qed

lemma matNames_distinct: "matLeftName \<noteq> matRightName"
  by (simp add: matLeftName_def matRightName_def)

lemma Oculus_materials:
  assumes "Oculus G res this = Inr (res', this')"
  shows "\<exists>sc ml. stereoConfig this = Some sc \<and> materials res matLeftName = Some ml \<and>
     materials res' matLeftName = Some (ml
        (''HmdWarpParam'' \<mapsto> Constant4 (hmdwarp_of (Some sc)),
         ''ChromAbParam'' \<mapsto> Constant4 (hmdchrom_of (Some sc)),
         ''LensCenter'' \<mapsto> Constant1 (fadd (1 / 2) (fdiv (GetProjectionCenterOffset sc) 2)))) \<and>
     materials res' matRightName = Some (ml
        (''HmdWarpParam'' \<mapsto> Constant4 (hmdwarp_of (Some sc)),
         ''ChromAbParam'' \<mapsto> Constant4 (hmdchrom_of (Some sc)),
         ''LensCenter'' \<mapsto> Constant1 (fsub (1 / 2) (fdiv (GetProjectionCenterOffset sc) 2))))"
  using assms matNames_distinct
  by (auto simp: Oculus_def Let_def setNamedConstant_def split: option.splits sum.splits)

lemma Oculus_succeeds:
  assumes "materials res matLeftName = Some ml" and "stereoConfig this = Some sc"
    and "camera (base this) = Some lc" and "rightCamera this = Some rc"
    and "''OculusLeft'' \<in> dom (compositorMaterial res)"
    and "''OculusRight'' \<in> dom (compositorMaterial res)"
  shows "\<exists>res' this'. Oculus G res this = Inr (res', this')"
  using assms
  by (auto simp: Oculus_def Let_def setNamedConstant_def Oculus_loop_two Oculus_eye_def
      addCompositor_def split: option.splits sum.splits)

lemma dk1_ready:
  "materials dk1_resources matLeftName = Some Map.empty"
  "''OculusLeft'' \<in> dom (compositorMaterial dk1_resources)"
  "''OculusRight'' \<in> dom (compositorMaterial dk1_resources)"
  "camera (base (dk1_initialised\<lparr>stereoConfig := cfg\<rparr>)) = Some dk1_left"
  "rightCamera (dk1_initialised\<lparr>stereoConfig := cfg\<rparr>) = Some dk1_right"
  "stereoConfig (dk1_initialised\<lparr>stereoConfig := cfg\<rparr>) = cfg"
  "camera (base dk1_initialised) = Some dk1_left"
  "rightCamera dk1_initialised = Some dk1_right"
  "stereoConfig dk1_initialised = Some dk1_config"
  by (simp_all add: dk1_resources_def dk1_initialised_def dk1_camera_def)

lemma dk1_Oculus_succeeds:
  "\<exists>res' this'. Oculus plain_Ogre dk1_resources (dk1_initialised\<lparr>stereoConfig := Some sc\<rparr>) =
      Inr (res', this')"
  by (rule Oculus_succeeds [OF dk1_ready(1) dk1_ready(6) dk1_ready(4) dk1_ready(5)
        dk1_ready(2) dk1_ready(3)])

lemma dk1_unchanged: "dk1_initialised\<lparr>stereoConfig := Some dk1_config\<rparr> = dk1_initialised"
  by (simp add: dk1_initialised_def dk1_camera_def)

subsection \<open>The stereo configuration is always there\<close>

lemma stereoConfig_Init: "Init G B pt this = Inr this' \<Longrightarrow> stereoConfig this' = stereoConfig this"
  by (auto simp: Init_def Let_def split: sum.splits option.splits prod.splits RenderPathType.splits)

lemma stereoConfig_Update: "Update B this = Inr this' \<Longrightarrow> stereoConfig this' = stereoConfig this"
  by (auto simp: Update_def Let_def split: option.splits)

lemma stereoConfig_OnControl: "OnControl d this = Inr this' \<Longrightarrow> stereoConfig this' = stereoConfig this"
  by (auto simp: OnControl_def ResetSensor_def split: option.splits if_splits)

lemma stereoConfig_SetRenderTarget:
  "SetRenderTarget G B res this = Inr (res', this') \<Longrightarrow> stereoConfig this' = stereoConfig this"
  by (auto simp: SetRenderTarget_def Let_def split: option.splits dest!: Oculus_cameras)

lemma stereoConfig_constructor:
  "OculusCamera_OculusCamera ovr B nm scene = Inr this \<Longrightarrow> stereoConfig this \<noteq> None"
  by (auto simp: OculusCamera_OculusCamera_def Let_def split: option.splits)

lemma constructed_stereoConfig: "constructed ovr B G this \<Longrightarrow> stereoConfig this \<noteq> None"
  by (induction rule: constructed.induct)
    (simp_all add: stereoConfig_constructor stereoConfig_Init stereoConfig_Update
      stereoConfig_OnControl stereoConfig_SetRenderTarget)

text \<open>
  Claim C9. An adapter that finished construction has a stereo configuration, and keeps
  it through every later call. Each test of the configuration in \<^verbatim>\<open>Oculus\<close> therefore
  takes the branch that reads the configuration, never the one with the default
  distortion, chromatic-aberration or camera-placement values, and the unguarded reads
  of the configuration for the lens centres do not meet a null pointer.
\<close>

theorem constructed_never_without_stereoConfig:
  assumes "constructed ovr B G this"
  shows "\<exists>sc. stereoConfig this = Some sc \<and>
     hmdwarp_of (stereoConfig this) =
       Vector4 (GetDistortionK sc 0) (GetDistortionK sc 1) (GetDistortionK sc 2)
         (GetDistortionK sc 3) \<and>
     hmdchrom_of (stereoConfig this) = ChromaAbCorrection (GetHMDInfo sc) \<and>
     (\<forall>idx cam. setupEyeCamera G (stereoConfig this) idx cam =
                  setupEyeCamera G (Some sc) idx cam) \<and>
     (\<forall>res. Oculus G res this \<noteq> Inl (NullPointer ''stereoConfig'')) \<and>
     (\<forall>res. SetRenderTarget G B res this \<noteq> Inl (NullPointer ''stereoConfig''))"
proof -
  from constructed_stereoConfig [OF assms] obtain sc where sc: "stereoConfig this = Some sc"
    by blast
  have o: "Oculus G res t \<noteq> Inl (NullPointer ''stereoConfig'')"
    if "stereoConfig t = Some sc" for res and t :: "'a OculusCamera"
    using that
    by (auto simp: Oculus_def Let_def Oculus_loop_two Oculus_eye_def
        split: option.splits sum.splits if_splits)
  have "SetRenderTarget G B res this \<noteq> Inl (NullPointer ''stereoConfig'')" for res
    using o [of "this\<lparr>base := Camera_SetRenderTarget B (base this), rightViewport := Some ()\<rparr>" res] sc
    by (auto simp: SetRenderTarget_def Let_def split: option.splits)
  with sc o [OF sc] show ?thesis
    by (simp add: hmdwarp_of_def hmdchrom_of_def)
qed

theorem constructed_never_without_stereoConfig_witness:
  "constructed dk1_sdk plain_Camera plain_Ogre dk1_initialised \<and>
   stereoConfig dk1_initialised = Some dk1_config \<and>
   hmdchrom_of (stereoConfig dk1_initialised) = ChromaAbCorrection dk1_info \<and>
   Oculus plain_Ogre dk1_resources dk1_initialised \<noteq> Inl (NullPointer ''stereoConfig'')"
proof -
  have c: "constructed dk1_sdk plain_Camera plain_Ogre dk1_initialised"
    using by_constructor [OF construct_dk1] Init_dk1 by (rule after_Init)
  show ?thesis
    using c constructed_never_without_stereoConfig [OF c]
    by (auto simp: dk1_ready dk1_config_def)
qed

subsection \<open>World-control messages\<close>

lemma subscribed_constructor:
  "OculusCamera_OculusCamera ovr B nm scene = Inr this \<Longrightarrow>
   controlSub this \<noteq> None \<Longrightarrow> sensorFusion this \<noteq> None"
  by (auto simp: OculusCamera_OculusCamera_def Let_def split: option.splits)

lemma subscribed_Init:
  "Init G B pt this = Inr this' \<Longrightarrow>
   controlSub this' = controlSub this \<and> sensorFusion this' = sensorFusion this"
  by (auto dest!: Init_result)

lemma subscribed_Update:
  "Update B this = Inr this' \<Longrightarrow>
   controlSub this' = controlSub this \<and> sensorFusion this' = sensorFusion this"
  by (auto simp: Update_def Let_def split: option.splits)

lemma subscribed_OnControl:
  "OnControl d this = Inr this' \<Longrightarrow>
   controlSub this' = controlSub this \<and> (sensorFusion this \<noteq> None \<longrightarrow> sensorFusion this' \<noteq> None)"
  by (auto simp: OnControl_def ResetSensor_def split: option.splits if_splits)

lemma subscribed_SetRenderTarget:
  "SetRenderTarget G B res this = Inr (res', this') \<Longrightarrow>
   controlSub this' = controlSub this \<and> sensorFusion this' = sensorFusion this"
  by (auto simp: SetRenderTarget_def Let_def split: option.splits dest!: Oculus_cameras)

lemma constructed_subscribed:
  "constructed ovr B G this \<Longrightarrow> controlSub this \<noteq> None \<Longrightarrow> sensorFusion this \<noteq> None"
proof (induction rule: constructed.induct)
  case (by_constructor nm scene this)
  then show ?case by (rule subscribed_constructor)
next
  case (after_Init this pathType this')
  then show ?case using subscribed_Init by metis
next
  case (after_Update this this')
  then show ?case using subscribed_Update by metis
next
  case (after_OnControl this data this')
  then show ?case using subscribed_OnControl by metis
next
  case (after_SetRenderTarget this res res' this')
  then show ?case using subscribed_SetRenderTarget by metis
qed


text \<open>
  Claim C10. Messages reach \<^verbatim>\<open>OnControl\<close> through the subscription, and an adapter
  that subscribed has a sensor fusion. For such an adapter, a world-control message
  resets the sensor fusion if and only if it carries a reset field whose \<^verbatim>\<open>all\<close>
  field is present and true; any other message leaves the adapter, and with it the
  sensor fusion, as it was.
\<close>

theorem OnControl_resets_iff_reset_all:
  "(constructed ovr B G this \<and> controlSub this \<noteq> None \<longrightarrow> sensorFusion this \<noteq> None) \<and>
   (sensorFusion this = Some sf \<longrightarrow>
      (\<exists>this'. OnControl data this = Inr this' \<and>
         (if \<exists>r. control_reset data = Some r \<and> reset_all r = Some True
          then this' = this\<lparr>sensorFusion := Some (Reset sf)\<rparr> \<and>
               resetCalls (Reset sf) = Suc (resetCalls sf)
          else this' = this)))"
  using constructed_subscribed [of ovr B G this]
  by (auto simp: OnControl_def ResetSensor_def has_reset_def has_all_def all_field_def
      reset_def Reset_def split: option.splits)

theorem OnControl_resets_iff_reset_all_witness:
  "constructed dk1_sdk plain_Camera plain_Ogre dk1_camera \<and>
   controlSub dk1_camera = Some ''~/world_control'' \<and>
   sensorFusion dk1_camera = Some dk1_fusion \<and>
   OnControl \<lparr>control_reset = Some \<lparr>reset_all = Some True\<rparr>\<rparr> dk1_camera =
     Inr (dk1_camera\<lparr>sensorFusion := Some (dk1_fusion\<lparr>resetCalls := 1\<rparr>)\<rparr>) \<and>
   OnControl \<lparr>control_reset = Some \<lparr>reset_all = Some False\<rparr>\<rparr> dk1_camera = Inr dk1_camera \<and>
   OnControl \<lparr>control_reset = Some \<lparr>reset_all = None\<rparr>\<rparr> dk1_camera = Inr dk1_camera \<and>
   OnControl \<lparr>control_reset = None\<rparr> dk1_camera = Inr dk1_camera"
proof -
  have c: "constructed dk1_sdk plain_Camera plain_Ogre dk1_camera"
    using construct_dk1 by (rule by_constructor)
  have sub: "controlSub dk1_camera = Some ''~/world_control''"
    by (simp add: dk1_camera_def)
  have sf: "sensorFusion dk1_camera = Some dk1_fusion"
    by (simp add: dk1_camera_def)
  have r0: "resetCalls dk1_fusion = 0"
    by (simp add: dk1_fusion_def)
  show ?thesis
    using c sub sf r0
      OnControl_resets_iff_reset_all [where ovr = dk1_sdk and B = plain_Camera
        and G = plain_Ogre and this = dk1_camera and sf = dk1_fusion
        and data = "\<lparr>control_reset = Some \<lparr>reset_all = Some True\<rparr>\<rparr>"]
      OnControl_resets_iff_reset_all [where ovr = dk1_sdk and B = plain_Camera
        and G = plain_Ogre and this = dk1_camera and sf = dk1_fusion
        and data = "\<lparr>control_reset = Some \<lparr>reset_all = Some False\<rparr>\<rparr>"]
      OnControl_resets_iff_reset_all [where ovr = dk1_sdk and B = plain_Camera
        and G = plain_Ogre and this = dk1_camera and sf = dk1_fusion
        and data = "\<lparr>control_reset = Some \<lparr>reset_all = None\<rparr>\<rparr>"]
      OnControl_resets_iff_reset_all [where ovr = dk1_sdk and B = plain_Camera
        and G = plain_Ogre and this = dk1_camera and sf = dk1_fusion
        and data = "\<lparr>control_reset = None\<rparr>"]
    by (auto simp: Reset_def)
qed

subsection \<open>The warp shader constants\<close>

text \<open>
  Claim C4. \<^verbatim>\<open>Oculus\<close> computes no distortion coefficient: with a stereo configuration
  present, \<^verbatim>\<open>HmdWarpParam\<close> is the vector of the configuration's four
  \<^verbatim>\<open>DistortionK\<close> coefficients and \<^verbatim>\<open>ChromAbParam\<close> is the
  \<^verbatim>\<open>ChromaAbCorrection\<close> vector of its HMD info, and the material of the left eye and
  the material of the right eye receive the same two values.
\<close>

theorem warp_parameters_from_configuration:
  assumes "Oculus G res this = Inr (res', this')"
  shows "\<exists>sc ml mr. stereoConfig this = Some sc \<and>
     materials res' matLeftName = Some ml \<and> materials res' matRightName = Some mr \<and>
     ml ''HmdWarpParam'' =
       Some (Constant4 (Vector4 (GetDistortionK sc 0) (GetDistortionK sc 1)
                          (GetDistortionK sc 2) (GetDistortionK sc 3))) \<and>
     mr ''HmdWarpParam'' = ml ''HmdWarpParam'' \<and>
     ml ''ChromAbParam'' = Some (Constant4 (ChromaAbCorrection (GetHMDInfo sc))) \<and>
     mr ''ChromAbParam'' = ml ''ChromAbParam''"
proof -
  from Oculus_materials [OF assms] obtain sc ml where
    "stereoConfig this = Some sc"
    "materials res' matLeftName = Some (ml
        (''HmdWarpParam'' \<mapsto> Constant4 (hmdwarp_of (Some sc)),
         ''ChromAbParam'' \<mapsto> Constant4 (hmdchrom_of (Some sc)),
         ''LensCenter'' \<mapsto> Constant1 (fadd (1 / 2) (fdiv (GetProjectionCenterOffset sc) 2))))"
    "materials res' matRightName = Some (ml
        (''HmdWarpParam'' \<mapsto> Constant4 (hmdwarp_of (Some sc)),
         ''ChromAbParam'' \<mapsto> Constant4 (hmdchrom_of (Some sc)),
         ''LensCenter'' \<mapsto> Constant1 (fsub (1 / 2) (fdiv (GetProjectionCenterOffset sc) 2))))"
    by blast
  then show ?thesis
    by (simp add: hmdwarp_of_def hmdchrom_of_def)
qed

theorem warp_parameters_from_configuration_witness:
  "materialConstant matLeftName ''HmdWarpParam''
     (Oculus plain_Ogre dk1_resources (dk1_initialised\<lparr>stereoConfig := Some other_config\<rparr>)) =
     Some (Constant4 (Vector4 1 (1 / 4) (1 / 8) (1 / 16))) \<and>
   materialConstant matRightName ''HmdWarpParam''
     (Oculus plain_Ogre dk1_resources (dk1_initialised\<lparr>stereoConfig := Some other_config\<rparr>)) =
     Some (Constant4 (Vector4 1 (1 / 4) (1 / 8) (1 / 16))) \<and>
   materialConstant matLeftName ''ChromAbParam''
     (Oculus plain_Ogre dk1_resources (dk1_initialised\<lparr>stereoConfig := Some other_config\<rparr>)) =
     Some (Constant4 (Vector4 1 (- (1 / 512)) (3 / 2) (1 / 8))) \<and>
   materialConstant matRightName ''ChromAbParam''
     (Oculus plain_Ogre dk1_resources (dk1_initialised\<lparr>stereoConfig := Some other_config\<rparr>)) =
     Some (Constant4 (Vector4 1 (- (1 / 512)) (3 / 2) (1 / 8)))"
proof -
  let ?cam = "dk1_initialised\<lparr>stereoConfig := Some other_config\<rparr>"
  obtain res' this' where ok: "Oculus plain_Ogre dk1_resources ?cam = Inr (res', this')"
    using dk1_Oculus_succeeds [of other_config] by blast
  from warp_parameters_from_configuration [OF ok] obtain ml mr where
    m: "materials res' matLeftName = Some ml" "materials res' matRightName = Some mr" and
    w: "ml ''HmdWarpParam'' = Some (Constant4 (Vector4 1 (1 / 4) (1 / 8) (1 / 16)))"
       "mr ''HmdWarpParam'' = ml ''HmdWarpParam''" and
    c: "ml ''ChromAbParam'' = Some (Constant4 (Vector4 1 (- (1 / 512)) (3 / 2) (1 / 8)))"
       "mr ''ChromAbParam'' = ml ''ChromAbParam''"
    by (auto simp: dk1_ready other_config_def)
  show ?thesis
    by (simp add: materialConstant_def ok m w c)
qed

lemma Oculus_LensCenter:
  assumes "Oculus G res this = Inr (res', this')"
  shows "\<exists>sc ml mr. stereoConfig this = Some sc \<and>
     materials res' matLeftName = Some ml \<and> materials res' matRightName = Some mr \<and>
     ml ''LensCenter'' = Some (Constant1 (f32 (1 / 2 + f32 (GetProjectionCenterOffset sc / 2)))) \<and>
     mr ''LensCenter'' = Some (Constant1 (f32 (1 / 2 - f32 (GetProjectionCenterOffset sc / 2))))"
proof -
  from Oculus_materials [OF assms] obtain sc ml where
    "stereoConfig this = Some sc"
    "materials res' matLeftName = Some (ml
        (''HmdWarpParam'' \<mapsto> Constant4 (hmdwarp_of (Some sc)),
         ''ChromAbParam'' \<mapsto> Constant4 (hmdchrom_of (Some sc)),
         ''LensCenter'' \<mapsto> Constant1 (fadd (1 / 2) (fdiv (GetProjectionCenterOffset sc) 2))))"
    "materials res' matRightName = Some (ml
        (''HmdWarpParam'' \<mapsto> Constant4 (hmdwarp_of (Some sc)),
         ''ChromAbParam'' \<mapsto> Constant4 (hmdchrom_of (Some sc)),
         ''LensCenter'' \<mapsto> Constant1 (fsub (1 / 2) (fdiv (GetProjectionCenterOffset sc) 2))))"
    by blast
  then show ?thesis
    by (simp add: fadd_def fsub_def fdiv_def)
qed

text \<open>
  Claim C6, as amended. The \<^verbatim>\<open>LensCenter\<close> constants are the single-precision sums
  \<open>0.5 + h\<close> for the left eye and \<open>0.5 - h\<close> for the right eye, where \<open>h\<close> is
  the single-precision half of the projection centre offset. Before the final rounding
  the two are mirror images about 0.5 and sum to 1. The constants themselves sum to
  exactly 1 whenever neither sum needs rounding, and for an offset of magnitude at most
  1 they sum to 1 within \<open>2\<^sup>-\<^sup>2\<^sup>3\<close>.
\<close>

theorem LensCenter_mirrored_up_to_rounding:
  assumes "Oculus G res this = Inr (res', this')"
  shows "\<exists>sc ml mr l r. stereoConfig this = Some sc \<and>
     materials res' matLeftName = Some ml \<and> materials res' matRightName = Some mr \<and>
     ml ''LensCenter'' = Some (Constant1 l) \<and> mr ''LensCenter'' = Some (Constant1 r) \<and>
     l = f32 (1 / 2 + f32 (GetProjectionCenterOffset sc / 2)) \<and>
     r = f32 (1 / 2 - f32 (GetProjectionCenterOffset sc / 2)) \<and>
     (1 / 2 + f32 (GetProjectionCenterOffset sc / 2)) +
       (1 / 2 - f32 (GetProjectionCenterOffset sc / 2)) = 1 \<and>
     (is_f32 (1 / 2 + f32 (GetProjectionCenterOffset sc / 2)) \<and>
      is_f32 (1 / 2 - f32 (GetProjectionCenterOffset sc / 2)) \<longrightarrow> l + r = 1) \<and>
     (\<bar>GetProjectionCenterOffset sc\<bar> \<le> 1 \<longrightarrow> \<bar>l + r - 1\<bar> \<le> 1 / 2 ^ 23)"
proof -
  from Oculus_LensCenter [OF assms] obtain sc ml mr where
    *: "stereoConfig this = Some sc" "materials res' matLeftName = Some ml"
       "materials res' matRightName = Some mr"
       "ml ''LensCenter'' = Some (Constant1 (f32 (1 / 2 + f32 (GetProjectionCenterOffset sc / 2))))"
       "mr ''LensCenter'' = Some (Constant1 (f32 (1 / 2 - f32 (GetProjectionCenterOffset sc / 2))))"
    by blast
  show ?thesis
    using * lens_centers_sum [of "f32 (GetProjectionCenterOffset sc / 2)"]
      f32_half_bound [of "GetProjectionCenterOffset sc"]
    by auto
qed

theorem LensCenter_mirrored_up_to_rounding_witness:
  "materialConstant matLeftName ''LensCenter''
     (Oculus plain_Ogre dk1_resources dk1_initialised) =
     Some (Constant1 (9663475 / 16777216)) \<and>
   materialConstant matRightName ''LensCenter''
     (Oculus plain_Ogre dk1_resources dk1_initialised) =
     Some (Constant1 (7113741 / 16777216)) \<and>
   \<bar>GetProjectionCenterOffset dk1_config\<bar> \<le> 1 \<and>
   (9663475 / 16777216 :: float) + 7113741 / 16777216 = 1"
proof -
  obtain res' this' where ok: "Oculus plain_Ogre dk1_resources dk1_initialised = Inr (res', this')"
    using dk1_Oculus_succeeds [of dk1_config] by (auto simp: dk1_unchanged)
  have off: "GetProjectionCenterOffset dk1_config = 10198937 / 67108864"
    by (simp add: dk1_config_def)
  show ?thesis
    using LensCenter_mirrored_up_to_rounding [OF ok]
    by (auto simp: materialConstant_def ok dk1_ready off dk1_numbers)
qed

text \<open>
  Claim C6 as first stated, with a sum of exactly 1 for every offset, fails: for the
  offset 0.2 (in single precision) the two constants sum to \<open>1 + 2\<^sup>-\<^sup>2\<^sup>5\<close>.
\<close>

theorem LensCenter_sum_differs_from_one:
  "materialConstant matLeftName ''LensCenter''
     (Oculus plain_Ogre dk1_resources
        (dk1_initialised\<lparr>stereoConfig :=
           Some (dk1_config\<lparr>GetProjectionCenterOffset := 13421773 / 67108864\<rparr>)\<rparr>)) =
     Some (Constant1 (5033165 / 8388608)) \<and>
   materialConstant matRightName ''LensCenter''
     (Oculus plain_Ogre dk1_resources
        (dk1_initialised\<lparr>stereoConfig :=
           Some (dk1_config\<lparr>GetProjectionCenterOffset := 13421773 / 67108864\<rparr>)\<rparr>)) =
     Some (Constant1 (13421773 / 33554432)) \<and>
   (5033165 / 8388608 :: float) + 13421773 / 33554432 \<noteq> 1"
proof -
  let ?sc = "dk1_config\<lparr>GetProjectionCenterOffset := 13421773 / 67108864\<rparr>"
  let ?cam = "dk1_initialised\<lparr>stereoConfig := Some ?sc\<rparr>"
  obtain res' this' where ok: "Oculus plain_Ogre dk1_resources ?cam = Inr (res', this')"
    using dk1_Oculus_succeeds by blast
  from Oculus_LensCenter [OF ok] show ?thesis
    by (auto simp: materialConstant_def ok dk1_ready dk1_numbers)
qed

subsection \<open>The eye cameras\<close>

lemma stereo_eye_position:
  assumes "is_f32 (GetIPD sc)"
  shows "cameraPosition (setupEyeCamera G (Some sc) (- 1) cam) =
           Vector3 0 (f32 (GetIPD sc / 2)) 0"
    and "cameraPosition (setupEyeCamera G (Some sc) 1 cam) =
           Vector3 0 (- f32 (GetIPD sc / 2)) 0"
proof -
  have l: "fmul (fmul (float_of_int (- 1)) (GetIPD sc)) (1 / 2) = - f32 (GetIPD sc / 2)"
    using assms by (simp add: fmul_minus_one) (simp add: fmul_def f32_minus)
  have r: "fmul (fmul (float_of_int 1) (GetIPD sc)) (1 / 2) = f32 (GetIPD sc / 2)"
    using assms by (simp add: fmul_one) (simp add: fmul_def)
  show "cameraPosition (setupEyeCamera G (Some sc) (- 1) cam) =
           Vector3 0 (f32 (GetIPD sc / 2)) 0"
    by (simp add: setupEyeCamera_def Let_def l dmul_def f64_f32 f32_f32)
  show "cameraPosition (setupEyeCamera G (Some sc) 1 cam) =
           Vector3 0 (- f32 (GetIPD sc / 2)) 0"
    by (simp add: setupEyeCamera_def Let_def r dmul_def f64_minus f32_minus f64_f32 f32_f32)
qed

lemma fallback_eye_position:
  "cameraPosition (setupEyeCamera G None (- 1) cam) = Vector3 (- (g_defaultIPD / 2)) 0 0"
  "cameraPosition (setupEyeCamera G None 1 cam) = Vector3 (g_defaultIPD / 2) 0 0"
  by (simp_all add: setupEyeCamera_def Let_def fallback_left fallback_right)

text \<open>
  Claim C2. With a stereo configuration, \<^verbatim>\<open>Oculus\<close> puts the left camera (index -1)
  at \<open>y = +h\<close> and the right camera (index +1) at \<open>y = -h\<close>, where \<open>h\<close> is the
  single-precision value of \<open>idx * IPD * 0.5 * -1\<close> at index -1, the rounded half of
  the IPD. For every IPD an SDK configuration holds, a positive single-precision
  distance from \<open>2\<^sup>-\<^sup>1\<^sup>2\<^sup>5\<close> up, the half is exact: the cameras sit at plus and minus
  half the IPD and the distance between them is the IPD. In the branch for a missing
  stereo configuration the cameras are put at \<open>x = - g_defaultIPD / 2\<close> and
  \<open>x = + g_defaultIPD / 2\<close>, the default IPD (0.064 in single precision) apart.
\<close>

theorem eye_cameras_IPD_apart:
  assumes "Oculus G res this = Inr (res', this')"
    and "stereoConfig this = Some sc"
    and "is_f32 (GetIPD sc)"
  shows "\<exists>l r. camera (base this') = Some l \<and> rightCamera this' = Some r \<and>
     cameraPosition l = Vector3 0 (f32 (GetIPD sc / 2)) 0 \<and>
     cameraPosition r = Vector3 0 (- f32 (GetIPD sc / 2)) 0 \<and>
     distance (cameraPosition l) (cameraPosition r) = 2 * \<bar>of_rat (f32 (GetIPD sc / 2))\<bar> \<and>
     (0 \<le> GetIPD sc \<and> is_f32 (GetIPD sc / 2) \<longrightarrow>
        distance (cameraPosition l) (cameraPosition r) = of_rat (GetIPD sc)) \<and>
     (2 powi (- 125) \<le> GetIPD sc \<longrightarrow> is_f32 (GetIPD sc / 2)) \<and>
     (2 powi (- 125) \<le> GetIPD sc \<longrightarrow>
        cameraPosition l = Vector3 0 (GetIPD sc / 2) 0 \<and>
        cameraPosition r = Vector3 0 (- (GetIPD sc / 2)) 0 \<and>
        distance (cameraPosition l) (cameraPosition r) = of_rat (GetIPD sc)) \<and>
     \<bar>g_defaultIPD - 64 / 1000\<bar> < 1 / 10 ^ 8 \<and>
     cameraPosition (setupEyeCamera G None (- 1) cl) = Vector3 (- (g_defaultIPD / 2)) 0 0 \<and>
     cameraPosition (setupEyeCamera G None 1 cr) = Vector3 (g_defaultIPD / 2) 0 0 \<and>
     distance (cameraPosition (setupEyeCamera G None (- 1) cl))
       (cameraPosition (setupEyeCamera G None 1 cr)) = of_rat g_defaultIPD"
proof -
  from Oculus_cameras [OF assms(1)] obtain lc rc where
    l: "camera (base this') = Some (setupEyeCamera G (Some sc) (- 1) lc)" and
    r: "rightCamera this' = Some (setupEyeCamera G (Some sc) 1 rc)"
    by (auto simp: assms(2))
  have g: "0 \<le> g_defaultIPD" by (simp add: default_IPD_value)
  have half: "real_of_rat (GetIPD sc / 2) = of_rat (GetIPD sc) / 2"
    by (simp add: of_rat_divide)
  have "2 * \<bar>real_of_rat (f32 (GetIPD sc / 2))\<bar> = of_rat (GetIPD sc)"
    if "0 \<le> GetIPD sc" "is_f32 (GetIPD sc / 2)"
  proof -
    have eq: "f32 (GetIPD sc / 2) = GetIPD sc / 2" using that(2) by (simp add: is_f32_def)
    have nn: "0 \<le> real_of_rat (GetIPD sc)" using that(1) by (simp add: zero_le_of_rat_iff)
    have "2 * \<bar>real_of_rat (f32 (GetIPD sc / 2))\<bar> = 2 * \<bar>real_of_rat (GetIPD sc / 2)\<bar>"
      by (simp only: eq)
    also have "\<dots> = 2 * \<bar>real_of_rat (GetIPD sc) / 2\<bar>" by (simp only: half)
    also have "\<dots> = real_of_rat (GetIPD sc)" using nn by simp
    finally show ?thesis .
  qed
  moreover have hf: "is_f32 (GetIPD sc / 2)" if "2 powi (- 125) \<le> GetIPD sc"
    using assms(3) that by (intro is_f32_half) simp_all
  moreover have "f32 (GetIPD sc / 2) = GetIPD sc / 2 \<and> 0 \<le> GetIPD sc"
    if "2 powi (- 125) \<le> GetIPD sc"
  proof -
    have "(0::rat) \<le> 2 powi (- 125)" by simp
    with that have "0 \<le> GetIPD sc" by linarith
    with hf [OF that] show ?thesis by (simp add: is_f32_def)
  qed
  moreover have "\<bar>g_defaultIPD - 64 / 1000\<bar> < 1 / 10 ^ 8"
    by (simp add: default_IPD_value)
  moreover have "2 * \<bar>real_of_rat (g_defaultIPD / 2)\<bar> = of_rat g_defaultIPD"
  proof -
    have "0 \<le> real_of_rat g_defaultIPD" using g by (simp add: zero_le_of_rat_iff)
    moreover have "real_of_rat (g_defaultIPD / 2) = of_rat g_defaultIPD / 2"
      by (simp add: of_rat_divide)
    ultimately show ?thesis by simp
  qed
  ultimately show ?thesis
    using l r
    by (simp only: stereo_eye_position [OF assms(3)] fallback_eye_position distance_y distance_x
        OgreCamera.simps option.inject simp_thms ex_simps) auto
qed

theorem eye_cameras_IPD_apart_witness:
  "stereoConfig dk1_initialised = Some dk1_config \<and>
   is_f32 (GetIPD dk1_config) \<and> 2 powi (- 125) \<le> GetIPD dk1_config \<and>
   map_option (map_prod cameraPosition cameraPosition)
     (eyeCameras (Oculus plain_Ogre dk1_resources dk1_initialised)) =
     Some (Vector3 0 (GetIPD dk1_config / 2) 0, Vector3 0 (- (GetIPD dk1_config / 2)) 0) \<and>
   distance (Vector3 0 (GetIPD dk1_config / 2) 0) (Vector3 0 (- (GetIPD dk1_config / 2)) 0) =
     of_rat (GetIPD dk1_config)"
proof -
  obtain res' this' where ok: "Oculus plain_Ogre dk1_resources dk1_initialised = Inr (res', this')"
    using dk1_Oculus_succeeds [of dk1_config] by (auto simp: dk1_unchanged)
  have ipd: "GetIPD dk1_config = 8589935 / 134217728"
    by (simp add: dk1_config_def)
  have f: "is_f32 (GetIPD dk1_config)"
    by (simp add: ipd dk1_numbers)
  have n: "2 powi (- 125) \<le> GetIPD dk1_config"
    by (simp add: ipd power_int_minus)
  from eye_cameras_IPD_apart [OF ok dk1_ready(9) f, of undefined undefined] n
  obtain l r where
    lr: "camera (base this') = Some l" "rightCamera this' = Some r" and
    pos: "cameraPosition l = Vector3 0 (GetIPD dk1_config / 2) 0"
         "cameraPosition r = Vector3 0 (- (GetIPD dk1_config / 2)) 0" and
    d: "distance (cameraPosition l) (cameraPosition r) = of_rat (GetIPD dk1_config)"
    by blast
  have "eyeCameras (Oculus plain_Ogre dk1_resources dk1_initialised) = Some (l, r)"
    by (simp add: eyeCameras_def ok lr)
  then show ?thesis
    using f n d by (simp add: pos dk1_ready)
qed

text \<open>
  Claim C3. With a stereo configuration, the custom projection matrix of each eye is the
  product of a pure x-translation and the projection matrix of that eye's camera, taken
  after its frustum settings were made, with the translation on the left of the
  product. The translation is \<open>-offset * idx\<close>: the projection centre offset itself
  for the left eye (index -1) and its negative for the right eye (index +1).
\<close>

theorem eye_projection_offsets:
  assumes "Oculus G res this = Inr (res', this')"
    and "stereoConfig this = Some sc"
    and "is_f32 (GetProjectionCenterOffset sc)"
  shows "\<exists>lc rc l r. camera (base this) = Some lc \<and> rightCamera this = Some rc \<and>
     camera (base this') = Some l \<and> rightCamera this' = Some r \<and>
     fmul (- GetProjectionCenterOffset sc) (float_of_int (- 1)) = GetProjectionCenterOffset sc \<and>
     fmul (- GetProjectionCenterOffset sc) (float_of_int 1) = - GetProjectionCenterOffset sc \<and>
     customProjectionMatrix l =
       Some (Matrix4_mul G (xTranslation (GetProjectionCenterOffset sc))
              (getProjectionMatrix G
                 (lc\<lparr>nearClipDistance := GetEyeToScreenDistance sc,
                     farClipDistance := g_defaultFarClip,
                     cameraPosition := cameraPosition l,
                     aspectRatio := GetAspect sc,
                     FOVy := Radian (GetYFOVRadians sc)\<rparr>))) \<and>
     customProjectionMatrix r =
       Some (Matrix4_mul G (xTranslation (- GetProjectionCenterOffset sc))
              (getProjectionMatrix G
                 (rc\<lparr>nearClipDistance := GetEyeToScreenDistance sc,
                     farClipDistance := g_defaultFarClip,
                     cameraPosition := cameraPosition r,
                     aspectRatio := GetAspect sc,
                     FOVy := Radian (GetYFOVRadians sc)\<rparr>)))"
proof -
  from Oculus_cameras [OF assms(1)] obtain lc rc where
    "camera (base this) = Some lc" "rightCamera this = Some rc"
    "camera (base this') = Some (setupEyeCamera G (Some sc) (- 1) lc)"
    "rightCamera this' = Some (setupEyeCamera G (Some sc) 1 rc)"
    by (auto simp: assms(2))
  moreover have m: "is_f32 (- GetProjectionCenterOffset sc)"
    using assms(3) by (simp add: is_f32_minus)
  ultimately show ?thesis
    by (simp add: setupEyeCamera_def Let_def setTrans_x fmul_by_minus_one [OF m]
        fmul_by_one [OF m])
qed

theorem eye_projection_offsets_witness:
  "stereoConfig dk1_initialised = Some dk1_config \<and>
   is_f32 (GetProjectionCenterOffset dk1_config) \<and>
   map_option (map_prod customProjectionMatrix customProjectionMatrix)
     (eyeCameras (Oculus plain_Ogre dk1_resources dk1_initialised)) =
     Some (Some [[1, 0, - (10198937 / 67108864), 0],
                 [0, 13421773 / 16777216, 0, 0],
                 [0, 0, - 1, - (5502927 / 67108864)],
                 [0, 0, - 1, 0]],
           Some [[1, 0, 10198937 / 67108864, 0],
                 [0, 13421773 / 16777216, 0, 0],
                 [0, 0, - 1, - (5502927 / 67108864)],
                 [0, 0, - 1, 0]])"
proof -
  obtain res' this' where ok: "Oculus plain_Ogre dk1_resources dk1_initialised = Inr (res', this')"
    using dk1_Oculus_succeeds [of dk1_config] by (auto simp: dk1_unchanged)
  have off: "GetProjectionCenterOffset dk1_config = 10198937 / 67108864"
    by (simp add: dk1_config_def)
  have f: "is_f32 (GetProjectionCenterOffset dk1_config)"
    by (simp add: off dk1_numbers)
  from eye_projection_offsets [OF ok dk1_ready(9) f] obtain l r where
    lr: "camera (base this') = Some l" "rightCamera this' = Some r" and
    pl: "customProjectionMatrix l =
       Some (Matrix4_mul plain_Ogre (xTranslation (GetProjectionCenterOffset dk1_config))
              (getProjectionMatrix plain_Ogre
                 (dk1_left\<lparr>nearClipDistance := GetEyeToScreenDistance dk1_config,
                     farClipDistance := g_defaultFarClip,
                     cameraPosition := cameraPosition l,
                     aspectRatio := GetAspect dk1_config,
                     FOVy := Radian (GetYFOVRadians dk1_config)\<rparr>)))" and
    pr: "customProjectionMatrix r =
       Some (Matrix4_mul plain_Ogre (xTranslation (- GetProjectionCenterOffset dk1_config))
              (getProjectionMatrix plain_Ogre
                 (dk1_right\<lparr>nearClipDistance := GetEyeToScreenDistance dk1_config,
                     farClipDistance := g_defaultFarClip,
                     cameraPosition := cameraPosition r,
                     aspectRatio := GetAspect dk1_config,
                     FOVy := Radian (GetYFOVRadians dk1_config)\<rparr>)))"
    by (auto simp: dk1_ready)
  have e: "eyeCameras (Oculus plain_Ogre dk1_resources dk1_initialised) = Some (l, r)"
    by (simp add: eyeCameras_def ok lr)
  have "customProjectionMatrix l =
      Some [[1, 0, - (10198937 / 67108864), 0], [0, 13421773 / 16777216, 0, 0],
            [0, 0, - 1, - (5502927 / 67108864)], [0, 0, - 1, 0]]"
    unfolding pl
    by (simp add: plain_Ogre_def mat_mul_def xTranslation_def dk1_config_def)
  moreover have "customProjectionMatrix r =
      Some [[1, 0, 10198937 / 67108864, 0], [0, 13421773 / 16777216, 0, 0],
            [0, 0, - 1, - (5502927 / 67108864)], [0, 0, - 1, 0]]"
    unfolding pr
    by (simp add: plain_Ogre_def mat_mul_def xTranslation_def dk1_config_def)
  ultimately show ?thesis
    using f by (simp add: e dk1_ready)
qed

end
